theory Spec2Isabelle
  imports Complex_Main
begin

section \<open>Python values\<close>

text \<open>
  The script works on the value that \<open>response.json()\<close> returns: a JSON document as
  Python objects. Numbers are Python numbers: \<open>int\<close> (unbounded), \<open>bool\<close> (a
  subclass of \<open>int\<close>: JSON \<open>true\<close> counts as 1 in arithmetic and comparisons) and
  \<open>float\<close>. \<open>PFloat q\<close> stands for the finite float whose exact value is \<open>q\<close>;
  Python compares numbers by their exact values, so comparisons are modelled exactly.
  What float addition rounds to is not defined here: it is a parameter (\<open>runtime\<close>
  below). The non-finite floats, which the parser yields for \<open>NaN\<close>, \<open>Infinity\<close> and
  a literal beyond the float range, are outside the model; no operation of the script
  raises on them.
  A \<open>dict\<close> is an association list in insertion order, looked up with \<open>map_of\<close>.
\<close>

datatype pynum = PInt int | PBool bool | PFloat rat

datatype json =
    JNull
  | JNum pynum
  | JStr string
  | JList "json list"
  | JDict "(string \<times> json) list"

datatype error =
    KeyError
  | TypeError
  | IndexError
  | AttributeError
  | ValueError string
  | OverflowError
  | Timeout
  | RequestException
  | SMTPError
  | RetryError error

text \<open>
  A statement that may raise is a value of \<open>error + 'a\<close>, \<open>Inl\<close> the exception;
  \<open>andthen\<close> runs the rest of a block unless the statement before it raised.
\<close>

fun andthen :: "error + 'a \<Rightarrow> ('a \<Rightarrow> error + 'b) \<Rightarrow> error + 'b" where
  "andthen (Inl e) f = Inl e"
| "andthen (Inr x) f = f x"

record datetime =
  year :: nat
  month :: nat
  day :: nat
  hour :: nat
  minute :: nat
  second :: nat

text \<open>
  What the interpreter and its library do, taken as parameters:
  \<^item> \<open>float_add\<close>: the float that the sum of two floats rounds to (it never raises);
  \<^item> \<open>float_of_int\<close>: the conversion of the int operand of a float addition, \<open>None\<close>
    when the int is too large (\<open>OverflowError\<close>);
  \<^item> \<open>int_str_fails\<close>: whether \<open>str\<close> of an int raises \<open>ValueError\<close> because the int
    has more digits than the interpreter's limit for the conversion (4300 by default
    in the interpreters that have the limit, as Python 3.11 has);
  \<^item> \<open>float_str\<close>: \<open>str\<close> of a float;
  \<^item> \<open>container_str\<close>: \<open>str\<close> of a list or dict, which raises when it holds an int that
    \<open>str\<close> fails on;
  \<^item> \<open>fromisoformat\<close>: \<open>datetime.fromisoformat\<close>, \<open>None\<close> when it raises
    \<open>ValueError\<close>.
\<close>

record runtime =
  float_add :: "rat \<Rightarrow> rat \<Rightarrow> rat"
  float_of_int :: "int \<Rightarrow> rat option"
  int_str_fails :: "int \<Rightarrow> bool"
  float_str :: "rat \<Rightarrow> string"
  container_str :: "json \<Rightarrow> error + string"
  fromisoformat :: "string \<Rightarrow> datetime option"

fun num_val :: "pynum \<Rightarrow> rat" where
  "num_val (PInt i) = of_int i"
| "num_val (PBool b) = (if b then 1 else 0)"
| "num_val (PFloat q) = q"

fun is_float :: "pynum \<Rightarrow> bool" where
  "is_float (PFloat q) = True"
| "is_float n = False"

fun int_val :: "pynum \<Rightarrow> int" where
  "int_val (PInt i) = i"
| "int_val (PBool b) = (if b then 1 else 0)"
| "int_val (PFloat q) = 0"

text \<open>
  The operand of a float addition as a float: an int is converted, which raises
  \<open>OverflowError\<close> when it is too large; \<open>True\<close> and \<open>False\<close> are 1 and 0.
\<close>

fun to_float :: "runtime \<Rightarrow> pynum \<Rightarrow> error + rat" where
  "to_float rt (PFloat q) = Inr q"
| "to_float rt (PBool b) = Inr (if b then 1 else 0)"
| "to_float rt (PInt i) =
     (case float_of_int rt i of None \<Rightarrow> Inl OverflowError | Some q \<Rightarrow> Inr q)"

text \<open>\<open>a + b\<close> on numbers: int arithmetic unless one operand is a float.\<close>

definition num_add :: "runtime \<Rightarrow> pynum \<Rightarrow> pynum \<Rightarrow> error + pynum" where
  "num_add rt a b =
     (if is_float a \<or> is_float b then
        andthen (to_float rt a) (\<lambda>x.
        andthen (to_float rt b) (\<lambda>y. Inr (PFloat (float_add rt x y))))
      else Inr (PInt (int_val a + int_val b)))"

text \<open>
  \<open>total += x\<close> with a number on the left: a JSON value that is not a number
  (\<open>None\<close>, a str, a list, a dict) raises \<open>TypeError\<close>.
\<close>

definition py_add :: "runtime \<Rightarrow> pynum \<Rightarrow> json \<Rightarrow> error + pynum" where
  "py_add rt a x = (case x of JNum n \<Rightarrow> num_add rt a n | _ \<Rightarrow> Inl TypeError)"

text \<open>
  \<open>max(a, x)\<close> with a number \<open>a\<close>: the builtin keeps \<open>a\<close> unless \<open>x > a\<close>, and the
  comparison raises \<open>TypeError\<close> when \<open>x\<close> is not a number.
\<close>

definition py_max :: "pynum \<Rightarrow> json \<Rightarrow> error + pynum" where
  "py_max a x =
     (case x of JNum n \<Rightarrow> Inr (if num_val n > num_val a then n else a) | _ \<Rightarrow> Inl TypeError)"

text \<open>\<open>x >= t\<close> with an int \<open>t\<close>.\<close>

definition py_ge :: "json \<Rightarrow> int \<Rightarrow> error + bool" where
  "py_ge x t = (case x of JNum n \<Rightarrow> Inr (num_val n \<ge> of_int t) | _ \<Rightarrow> Inl TypeError)"

text \<open>\<open>n < t\<close> on a number and an int.\<close>

definition num_lt :: "pynum \<Rightarrow> int \<Rightarrow> bool" where
  "num_lt n t = (num_val n < of_int t)"

text \<open>The keys of a dict, in insertion order.\<close>

definition dict_keys :: "(string \<times> json) list \<Rightarrow> string list" where
  "dict_keys kvs = remdups (map fst kvs)"

text \<open>\<open>obj[key]\<close> with a str key.\<close>

definition py_getitem :: "json \<Rightarrow> string \<Rightarrow> error + json" where
  "py_getitem obj k =
     (case obj of
        JDict kvs \<Rightarrow> (case map_of kvs k of None \<Rightarrow> Inl KeyError | Some v \<Rightarrow> Inr v)
      | _ \<Rightarrow> Inl TypeError)"

text \<open>
  \<open>obj[i]\<close> with a non-negative int index. A dict built from JSON has str keys only, so
  an int key is never present.
\<close>

definition py_index :: "json \<Rightarrow> nat \<Rightarrow> error + json" where
  "py_index obj i =
     (case obj of
        JList xs \<Rightarrow> (if i < length xs then Inr (xs ! i) else Inl IndexError)
      | JStr s \<Rightarrow> (if i < length s then Inr (JStr [s ! i]) else Inl IndexError)
      | JDict kvs \<Rightarrow> Inl KeyError
      | _ \<Rightarrow> Inl TypeError)"

definition py_len :: "json \<Rightarrow> error + nat" where
  "py_len obj =
     (case obj of
        JList xs \<Rightarrow> Inr (length xs)
      | JStr s \<Rightarrow> Inr (length s)
      | JDict kvs \<Rightarrow> Inr (length (dict_keys kvs))
      | _ \<Rightarrow> Inl TypeError)"

text \<open>The items a \<open>for\<close> loop over the object visits.\<close>

definition py_iter :: "json \<Rightarrow> error + json list" where
  "py_iter obj =
     (case obj of
        JList xs \<Rightarrow> Inr xs
      | JStr s \<Rightarrow> Inr (map (\<lambda>c. JStr [c]) s)
      | JDict kvs \<Rightarrow> Inr (map JStr (dict_keys kvs))
      | _ \<Rightarrow> Inl TypeError)"

definition startswith :: "string \<Rightarrow> string \<Rightarrow> bool" where
  "startswith s p = (take (length p) s = p)"

fun is_substring :: "string \<Rightarrow> string \<Rightarrow> bool" where
  "is_substring p [] = (p = [])"
| "is_substring p (c # s) = (startswith (c # s) p \<or> is_substring p s)"

text \<open>
  \<open>key in obj\<close> with a str key: a key of a dict, an element of a list, a substring of a
  str; \<open>TypeError\<close> on anything else.
\<close>

definition py_contains :: "json \<Rightarrow> string \<Rightarrow> error + bool" where
  "py_contains obj k =
     (case obj of
        JDict kvs \<Rightarrow> Inr (k \<in> set (map fst kvs))
      | JList xs \<Rightarrow> Inr (JStr k \<in> set xs)
      | JStr s \<Rightarrow> Inr (is_substring k s)
      | _ \<Rightarrow> Inl TypeError)"

section \<open>Formatting\<close>

definition digit_char :: "nat \<Rightarrow> char" where
  "digit_char n = ''0123456789'' ! (n mod 10)"

fun str_nat :: "nat \<Rightarrow> string" where
  "str_nat n = (if n < 10 then [digit_char n] else str_nat (n div 10) @ [digit_char n])"

declare str_nat.simps [simp del]

definition str_int :: "int \<Rightarrow> string" where
  "str_int i = (if i < 0 then CHR ''-'' # str_nat (nat (- i)) else str_nat (nat i))"

text \<open>Zero padding to a width, as \<open>%m\<close>, \<open>%d\<close>, \<open>%H\<close>, \<open>%M\<close>, \<open>%S\<close> (2) and \<open>%Y\<close> (4) do.\<close>

definition pad :: "nat \<Rightarrow> nat \<Rightarrow> string" where
  "pad w n = replicate (w - length (str_nat n)) CHR ''0'' @ str_nat n"

text \<open>\<open>strftime('%Y-%m-%dT%H:00')\<close>\<close>

definition strftime_hour :: "datetime \<Rightarrow> string" where
  "strftime_hour t =
     pad 4 (year t) @ ''-'' @ pad 2 (month t) @ ''-'' @ pad 2 (day t) @ ''T'' @ pad 2 (hour t)
       @ '':00''"

text \<open>\<open>strftime('%Y-%m-%d %H:%M:%S')\<close>\<close>

definition strftime_check :: "datetime \<Rightarrow> string" where
  "strftime_check t =
     pad 4 (year t) @ ''-'' @ pad 2 (month t) @ ''-'' @ pad 2 (day t) @ '' '' @ pad 2 (hour t)
       @ '':'' @ pad 2 (minute t) @ '':'' @ pad 2 (second t)"

text \<open>\<open>strftime('%I:%M %p')\<close>: the 12-hour clock, in the C locale.\<close>

definition strftime_12h :: "datetime \<Rightarrow> string" where
  "strftime_12h t =
     pad 2 (if hour t mod 12 = 0 then 12 else hour t mod 12) @ '':'' @ pad 2 (minute t) @ '' ''
       @ (if hour t < 12 then ''AM'' else ''PM'')"

text \<open>
  \<open>str\<close> of a number, as an f-string field \<open>{n}\<close> forms it: on an int beyond the
  interpreter's digit limit it raises \<open>ValueError\<close>.
\<close>

fun str_num :: "runtime \<Rightarrow> pynum \<Rightarrow> error + string" where
  "str_num rt (PInt i) =
     (if int_str_fails rt i
      then Inl (ValueError ''Exceeds the limit for integer string conversion'')
      else Inr (str_int i))"
| "str_num rt (PBool b) = Inr (if b then ''True'' else ''False'')"
| "str_num rt (PFloat q) = Inr (float_str rt q)"

text \<open>What an f-string field \<open>{x}\<close> shows, or the exception that forming it raises.\<close>

fun py_str :: "runtime \<Rightarrow> json \<Rightarrow> error + string" where
  "py_str rt JNull = Inr ''None''"
| "py_str rt (JNum n) = str_num rt n"
| "py_str rt (JStr s) = Inr s"
| "py_str rt x = container_str rt x"

section \<open>Configuration\<close>

record city_entry =
  name :: string
  url :: string

definition CITIES :: "(string \<times> city_entry) list" where
  "CITIES =
     [(''madison'', \<lparr>name = ''Madison'',
         url = ''https://api.open-meteo.com/v1/forecast?latitude=43.0901&longitude=-89.4359&hourly=precipitation_probability,precipitation&timezone=America%2FChicago&forecast_days=1''\<rparr>),
      (''boston'', \<lparr>name = ''Boston'',
         url = ''https://api.open-meteo.com/v1/forecast?latitude=42.3745&longitude=-71.1178&hourly=precipitation_probability,precipitation&timezone=America%2FNew_York&forecast_days=1''\<rparr>)]"

definition DEFAULT_CITY :: string where
  "DEFAULT_CITY = ''madison''"

definition EMAIL_RECIPIENT :: string where
  "EMAIL_RECIPIENT = ''raychanan@gmail.com''"

text \<open>
  The two constants the claims range over. The source sets \<open>RAIN_THRESHOLD = 50\<close> and
  \<open>TESTING_MODE = False\<close>.
\<close>

record config =
  RAIN_THRESHOLD :: int
  TESTING_MODE :: bool

definition source_config :: config where
  "source_config = \<lparr>RAIN_THRESHOLD = 50, TESTING_MODE = False\<rparr>"

section \<open>get_current_hour_index\<close>

text \<open>
  The \<open>for\<close> loop over \<open>enumerate(times)\<close>: the first item that starts with the prefix
  returns its index; an item that is not a str has no \<open>startswith\<close>
  (\<open>AttributeError\<close>); when the loop ends the current hour is returned.
\<close>

fun scan_times :: "string \<Rightarrow> nat \<Rightarrow> nat \<Rightarrow> json list \<Rightarrow> error + nat" where
  "scan_times p current_hour i [] = Inr current_hour"
| "scan_times p current_hour i (JStr time_str # rest) =
     (if startswith time_str p then Inr i else scan_times p current_hour (Suc i) rest)"
| "scan_times p current_hour i (x # rest) = Inl AttributeError"

text \<open>The body of the \<open>try\<close>, with the clock reading \<open>current_time\<close>.\<close>

definition get_current_hour_index_try :: "datetime \<Rightarrow> json \<Rightarrow> error + nat" where
  "get_current_hour_index_try current_time data =
     (let current_hour_str = strftime_hour current_time in
      andthen (py_getitem data ''hourly'') (\<lambda>hourly.
      andthen (py_getitem hourly ''time'') (\<lambda>tms.
      andthen (py_iter tms) (\<lambda>items.
        scan_times (take 13 current_hour_str) (hour current_time) 0 items))))"

definition get_current_hour_index :: "datetime \<Rightarrow> json \<Rightarrow> nat" where
  "get_current_hour_index current_time data =
     (case get_current_hour_index_try current_time data of Inl e \<Rightarrow> 0 | Inr i \<Rightarrow> i)"

section \<open>analyze_rain_probability\<close>

record hour_data =
  time :: json
  probability :: json
  precipitation :: json

record analysis =
  city :: string
  check_time :: string
  hours_data :: "hour_data list"
  max_probability :: pynum
  total_precipitation :: pynum
  alert_triggered :: bool

text \<open>
  The text of \<open>f"Hour {i+1}: {time_str} - {probability}% chance, {precipitation}mm"\<close>,
  or the exception that forming it raises.
\<close>

definition hour_log_text :: "runtime \<Rightarrow> nat \<Rightarrow> json \<Rightarrow> json \<Rightarrow> json \<Rightarrow> error + string" where
  "hour_log_text rt i time_str prob precip =
     andthen (py_str rt time_str) (\<lambda>t.
     andthen (py_str rt prob) (\<lambda>p.
     andthen (py_str rt precip) (\<lambda>q.
       Inr (''Hour '' @ str_nat (i + 1) @ '': '' @ t @ '' - '' @ p @ ''% chance, '' @ q
              @ ''mm''))))"

text \<open>
  One turn of the loop \<open>for i in range(3)\<close>. The text of the \<open>logger.info\<close> call is
  formed (which may raise) and handed to the logger, which the model does not record.
\<close>

definition analyze_hour ::
  "config \<Rightarrow> runtime \<Rightarrow> json \<Rightarrow> json \<Rightarrow> json \<Rightarrow> nat \<Rightarrow> analysis \<Rightarrow> nat \<Rightarrow> error + analysis" where
  "analyze_hour cfg rt tms probabilities precipitations current_index a i =
     (let hour_index = current_index + i in
      andthen (py_len tms) (\<lambda>n.
        if hour_index < n then
          andthen (py_index tms hour_index) (\<lambda>time_str.
          andthen (py_index probabilities hour_index) (\<lambda>prob.
          andthen (py_index precipitations hour_index) (\<lambda>precip.
          andthen (py_max (max_probability a) prob) (\<lambda>mp.
          andthen (py_add rt (total_precipitation a) precip) (\<lambda>tp.
          andthen (hour_log_text rt i time_str prob precip) (\<lambda>logged_text.
          andthen (py_ge prob (RAIN_THRESHOLD cfg)) (\<lambda>ge.
            Inr (a\<lparr>hours_data :=
                      hours_data a
                        @ [\<lparr>time = time_str, probability = prob, precipitation = precip\<rparr>],
                    max_probability := mp,
                    total_precipitation := tp,
                    alert_triggered :=
                      (if ge \<or> TESTING_MODE cfg then True else alert_triggered a)\<rparr>))))))))
        else Inr a))"

fun analyze_loop ::
  "config \<Rightarrow> runtime \<Rightarrow> json \<Rightarrow> json \<Rightarrow> json \<Rightarrow> nat \<Rightarrow> nat list \<Rightarrow> analysis \<Rightarrow> error + analysis" where
  "analyze_loop cfg rt tms probabilities precipitations current_index [] a = Inr a"
| "analyze_loop cfg rt tms probabilities precipitations current_index (i # rest) a =
     andthen (analyze_hour cfg rt tms probabilities precipitations current_index a i)
       (analyze_loop cfg rt tms probabilities precipitations current_index rest)"

text \<open>
  The body of the \<open>try\<close> from the three lookups on, for a current index already
  resolved; \<open>check\<close> is the clock reading that \<open>check_time\<close> shows.
\<close>

definition city_name_of :: "string \<Rightarrow> string" where
  "city_name_of city_key = (case map_of CITIES city_key of Some c \<Rightarrow> name c | None \<Rightarrow> city_key)"

text \<open>
  The text of the last \<open>logger.info\<close> call of the analysis, which shows the maximum
  probability, the total precipitation and the alert flag, or the exception that forming
  it raises.
\<close>

definition summary_log_text :: "runtime \<Rightarrow> analysis \<Rightarrow> error + string" where
  "summary_log_text rt a =
     andthen (str_num rt (max_probability a)) (\<lambda>m.
     andthen (str_num rt (total_precipitation a)) (\<lambda>t.
       Inr (''Analysis complete - Max probability: '' @ m @ ''%, Total precipitation: '' @ t
              @ ''mm, Alert triggered: '' @ (if alert_triggered a then ''True'' else ''False''))))"

definition analyze_from ::
  "config \<Rightarrow> runtime \<Rightarrow> datetime \<Rightarrow> json \<Rightarrow> string \<Rightarrow> nat \<Rightarrow> error + analysis" where
  "analyze_from cfg rt check data city_key current_index =
     andthen (py_getitem data ''hourly'') (\<lambda>hourly.
     andthen (py_getitem hourly ''time'') (\<lambda>tms.
     andthen (py_getitem hourly ''precipitation_probability'') (\<lambda>probabilities.
     andthen (py_getitem hourly ''precipitation'') (\<lambda>precipitations.
     andthen
       (analyze_loop cfg rt tms probabilities precipitations current_index [0, 1, 2]
          \<lparr>city = city_name_of city_key, check_time = strftime_check check, hours_data = [],
           max_probability = PInt 0, total_precipitation = PInt 0, alert_triggered = False\<rparr>)
       (\<lambda>a.
     andthen (summary_log_text rt a) (\<lambda>logged_text. Inr a))))))"

text \<open>
  The whole \<open>try\<close>: \<open>now\<close> is the clock reading inside \<open>get_current_hour_index\<close>,
  \<open>check\<close> the one for \<open>check_time\<close>.
\<close>

definition analyze_rain_probability_try ::
  "config \<Rightarrow> runtime \<Rightarrow> datetime \<Rightarrow> datetime \<Rightarrow> json \<Rightarrow> string \<Rightarrow> error + analysis" where
  "analyze_rain_probability_try cfg rt now check data city_key =
     analyze_from cfg rt check data city_key (get_current_hour_index now data)"

text \<open>\<open>except Exception: return None\<close>\<close>

definition analyze_rain_probability ::
  "config \<Rightarrow> runtime \<Rightarrow> datetime \<Rightarrow> datetime \<Rightarrow> json \<Rightarrow> string \<Rightarrow> analysis option" where
  "analyze_rain_probability cfg rt now check data city_key =
     (case analyze_rain_probability_try cfg rt now check data city_key of
        Inl e \<Rightarrow> None
      | Inr a \<Rightarrow> Some a)"

section \<open>The retry decorator\<close>

text \<open>
  Modelled from the spec: the \<open>@retry\<close> decorator is tenacity's, a library whose code is
  not part of the repository. The source gives its arguments,
  \<open>stop_after_attempt(15)\<close>, \<open>wait_fixed(15)\<close> and a \<open>retry_if_exception_type\<close> that
  every exception of the model matches. Attempts are counted from 1; \<open>attempt k\<close> is what
  the \<open>k\<close>-th call of the decorated function does. After a failed attempt the decorator
  stops when the attempt number has reached the maximum, raising \<open>RetryError\<close> from the
  last exception, and otherwise sleeps and calls again. The result is paired with the
  sleeps made, in order.
\<close>

function retry :: "nat \<Rightarrow> nat \<Rightarrow> (nat \<Rightarrow> error + 'a) \<Rightarrow> nat \<Rightarrow> (error + 'a) \<times> nat list" where
  "retry stop wait attempt k =
     (case attempt k of
        Inr v \<Rightarrow> (Inr v, [])
      | Inl e \<Rightarrow>
          if stop \<le> k then (Inl (RetryError e), [])
          else apsnd (Cons wait) (retry stop wait attempt (Suc k)))"
  by pat_completeness auto
termination
  by (relation "measure (\<lambda>(stop, wait, attempt, k). stop - k)") auto

declare retry.simps [simp del]

definition stop_after_attempt :: nat where
  "stop_after_attempt = 15"

definition wait_fixed :: nat where
  "wait_fixed = 15"

section \<open>fetch_weather_data\<close>

text \<open>
  What \<open>requests.get\<close>, \<open>raise_for_status\<close> and \<open>response.json()\<close> do in one attempt:
  time out, fail otherwise (connection, HTTP status, a body that is not JSON), or give the
  parsed body. Every exception is logged and raised again; the model names the first
  \<open>Timeout\<close> and the others \<open>RequestException\<close>.
\<close>

datatype http_result = TimedOut | Failed | Body json

text \<open>The validation of the parsed body, up to \<open>return data\<close>.\<close>

definition validate_response :: "json \<Rightarrow> error + json" where
  "validate_response data =
     andthen (py_contains data ''hourly'') (\<lambda>has_hourly.
       if \<not> has_hourly then Inl (ValueError ''Invalid API response format'')
       else
         andthen (py_getitem data ''hourly'') (\<lambda>hourly.
         andthen (py_contains hourly ''precipitation_probability'') (\<lambda>has_probability.
           if \<not> has_probability then Inl (ValueError ''Missing precipitation probability data'')
           else Inr data)))"

text \<open>
  One call of the undecorated function; every \<open>except\<close> clause logs and raises the
  exception again. \<open>http_get\<close> is the network: what a request to a URL results in.
\<close>

definition fetch_weather_data_try :: "(string \<Rightarrow> http_result) \<Rightarrow> string \<Rightarrow> error + json" where
  "fetch_weather_data_try http_get city_key =
     (let city_key = (if city_key \<notin> set (map fst CITIES) then DEFAULT_CITY else city_key) in
      case map_of CITIES city_key of
        None \<Rightarrow> Inl KeyError
      | Some c \<Rightarrow>
          (case http_get (url c) of
             TimedOut \<Rightarrow> Inl Timeout
           | Failed \<Rightarrow> Inl RequestException
           | Body data \<Rightarrow> validate_response data))"

text \<open>The decorated function; \<open>http k\<close> is the network at the \<open>k\<close>-th attempt.\<close>

definition fetch_weather_data ::
  "(nat \<Rightarrow> string \<Rightarrow> http_result) \<Rightarrow> string \<Rightarrow> (error + json) \<times> nat list" where
  "fetch_weather_data http city_key =
     retry stop_after_attempt wait_fixed (\<lambda>k. fetch_weather_data_try (http k) city_key) 1"

section \<open>send_rain_alert_email\<close>

record message =
  recipient :: string
  subject :: string
  content :: string

definition newline :: string where
  "newline = [CHR 0x0A]"

text \<open>\<open>TESTING_MODE and analysis['max_probability'] < RAIN_THRESHOLD\<close>\<close>

definition test_only :: "config \<Rightarrow> analysis \<Rightarrow> bool" where
  "test_only cfg a = (TESTING_MODE cfg \<and> num_lt (max_probability a) (RAIN_THRESHOLD cfg))"

text \<open>
  The texts below show numbers of the summary; forming them raises what \<open>str\<close> of the
  number raises. \<open>RAIN_THRESHOLD\<close> is an int literal of the source, far below any digit
  limit, and its text is \<open>str_int\<close> of it.
\<close>

definition email_subject :: "config \<Rightarrow> runtime \<Rightarrow> analysis \<Rightarrow> error + string" where
  "email_subject cfg rt a =
     andthen (str_num rt (max_probability a)) (\<lambda>m.
       Inr (if test_only cfg a
            then ''[TEST] Rain Monitor for '' @ city a @ '' - '' @ m @ ''% Probability''
            else ''Rain Alert for '' @ city a @ '' - '' @ m @ ''% Probability''))"

definition alert_reason :: "config \<Rightarrow> analysis \<Rightarrow> string" where
  "alert_reason cfg a =
     (if test_only cfg a
      then ''This is a TEST EMAIL to verify email delivery is working.''
      else ''This alert was triggered because rain probability is ''
             @ str_int (RAIN_THRESHOLD cfg) @ ''% or greater within the next 3 hours.'')"

definition content_head :: "config \<Rightarrow> analysis \<Rightarrow> string" where
  "content_head cfg a =
     ''Rain '' @ (if test_only cfg a then ''Monitor Test'' else ''Alert'') @ '' - '' @ city a
       @ newline @ ''Check Time: '' @ check_time a @ newline @ newline
       @ ''RAIN PROBABILITY FORECAST (Next 3 Hours):'' @ newline"

text \<open>\<open>s.replace('T', ' ')\<close>\<close>

definition replace_T :: "string \<Rightarrow> string" where
  "replace_T s = map (\<lambda>c. if c = CHR ''T'' then CHR '' '' else c) s"

text \<open>
  The loop over \<open>enumerate(analysis['hours_data'])\<close>, hour by hour: a time that is not a
  str has no \<open>replace\<close>, \<open>fromisoformat\<close> raises \<open>ValueError\<close> on a str it cannot
  parse, and the line shows the probability and the amount.
\<close>

fun hour_lines :: "runtime \<Rightarrow> nat \<Rightarrow> hour_data list \<Rightarrow> error + string" where
  "hour_lines rt i [] = Inr []"
| "hour_lines rt i (h # rest) =
     (case time h of
        JStr s \<Rightarrow>
          (case fromisoformat rt (replace_T s) of
             None \<Rightarrow> Inl (ValueError ''Invalid isoformat string'')
           | Some hour_time \<Rightarrow>
               andthen (py_str rt (probability h)) (\<lambda>p.
               andthen (py_str rt (precipitation h)) (\<lambda>q.
               andthen (hour_lines rt (Suc i) rest) (\<lambda>more.
                 Inr (''Hour '' @ str_nat (i + 1) @ '' ('' @ strftime_12h hour_time @ ''): ''
                        @ p @ ''% chance, '' @ q @ ''mm'' @ newline @ more)))))
      | _ \<Rightarrow> Inl AttributeError)"

definition content_tail :: "config \<Rightarrow> runtime \<Rightarrow> analysis \<Rightarrow> error + string" where
  "content_tail cfg rt a =
     andthen (str_num rt (max_probability a)) (\<lambda>m.
     andthen (str_num rt (total_precipitation a)) (\<lambda>t.
       Inr (newline @ ''SUMMARY:'' @ newline
              @ ''- Maximum Probability: '' @ m @ ''%'' @ newline
              @ ''- Total Expected Precipitation: '' @ t @ ''mm'' @ newline
              @ ''- Alert Threshold: '' @ str_int (RAIN_THRESHOLD cfg) @ ''%'' @ newline
              @ ''- Testing Mode: '' @ (if TESTING_MODE cfg then ''ON'' else ''OFF'') @ newline
              @ newline @ alert_reason cfg a @ newline)))"

text \<open>
  One call of the undecorated function. \<open>smtp\<close> is what opening the session, sending and
  closing do in this attempt: \<open>None\<close> when the message went out. The result is the
  message sent.
\<close>

definition send_rain_alert_email_try ::
  "config \<Rightarrow> runtime \<Rightarrow> error option \<Rightarrow> analysis \<Rightarrow> error + message" where
  "send_rain_alert_email_try cfg rt smtp a =
     andthen (email_subject cfg rt a) (\<lambda>subj.
     andthen (hour_lines rt 0 (hours_data a)) (\<lambda>lines.
     andthen (content_tail cfg rt a) (\<lambda>tail.
       let msg = \<lparr>recipient = EMAIL_RECIPIENT, subject = subj,
                  content = content_head cfg a @ lines @ tail\<rparr>
       in case smtp of None \<Rightarrow> Inr msg | Some e \<Rightarrow> Inl e)))"

definition send_rain_alert_email ::
  "config \<Rightarrow> runtime \<Rightarrow> (nat \<Rightarrow> error option) \<Rightarrow> analysis \<Rightarrow> (error + message) \<times> nat list" where
  "send_rain_alert_email cfg rt smtp a =
     retry stop_after_attempt wait_fixed (\<lambda>k. send_rain_alert_email_try cfg rt (smtp k) a) 1"

section \<open>main\<close>

text \<open>
  The world of one run: the network and the mail service at each attempt, and the two
  clock readings of the analysis.
\<close>

record world =
  http_at :: "nat \<Rightarrow> string \<Rightarrow> http_result"
  smtp_at :: "nat \<Rightarrow> error option"
  index_clock :: datetime
  check_clock :: datetime

datatype log_level = INFO | WARNING | ERROR

text \<open>
  What a run leaves: the exception that left \<open>main\<close>, if one did (the interpreter then
  exits with status 1, and with 0 otherwise); the lines \<open>main\<close> itself logged (the text
  of the exception in the last line of a failed run is left out); the summaries handed to
  the notifier; the messages sent; the sleeps between attempts.
\<close>

record run =
  raised :: "error option"
  logged :: "(log_level \<times> string) list"
  notified :: "analysis list"
  sent :: "message list"
  slept :: "nat list"

definition exit_status :: "run \<Rightarrow> nat" where
  "exit_status r = (case raised r of None \<Rightarrow> 0 | Some e \<Rightarrow> 1)"

definition log_started :: "log_level \<times> string" where
  "log_started = (INFO, ''=== Rain Monitoring Check Started ==='')"

definition log_completed :: "log_level \<times> string" where
  "log_completed = (INFO, ''=== Rain Monitoring Check Completed ==='')"

definition log_failed :: "log_level \<times> string" where
  "log_failed = (ERROR, ''Rain monitoring check failed: '')"

definition log_no_analysis :: "log_level \<times> string" where
  "log_no_analysis = (ERROR, ''Failed to analyze weather data'')"

definition log_alert ::
  "config \<Rightarrow> runtime \<Rightarrow> analysis \<Rightarrow> error + log_level \<times> string" where
  "log_alert cfg rt a =
     andthen (str_num rt (max_probability a)) (\<lambda>m.
       Inr (if test_only cfg a
            then (INFO, ''TEST EMAIL triggered! Maximum probability: '' @ m
                          @ ''% (below threshold but testing mode is ON)'')
            else (INFO, ''Rain alert triggered! Maximum probability: '' @ m @ ''%'')))"

definition log_no_alert ::
  "config \<Rightarrow> runtime \<Rightarrow> analysis \<Rightarrow> error + log_level \<times> string" where
  "log_no_alert cfg rt a =
     andthen (str_num rt (max_probability a)) (\<lambda>m.
       Inr (INFO, ''No alert needed. Maximum probability: '' @ m
                    @ ''% (threshold: '' @ str_int (RAIN_THRESHOLD cfg) @ ''%)''))"

text \<open>
  \<open>main\<close> from the \<open>try\<close> on. An exception raised inside it, also by the forming of
  a log text, is logged by the \<open>except\<close> clause and raised again.
\<close>

definition main :: "config \<Rightarrow> runtime \<Rightarrow> world \<Rightarrow> run" where
  "main cfg rt w =
     (case fetch_weather_data (http_at w) DEFAULT_CITY of
        (Inl e, naps) \<Rightarrow>
          \<lparr>raised = Some e, logged = [log_started, log_failed], notified = [], sent = [],
           slept = naps\<rparr>
      | (Inr weather_data, naps) \<Rightarrow>
          (case analyze_rain_probability cfg rt (index_clock w) (check_clock w) weather_data DEFAULT_CITY of
             None \<Rightarrow>
               \<lparr>raised = None, logged = [log_started, log_no_analysis], notified = [],
                sent = [], slept = naps\<rparr>
           | Some a \<Rightarrow>
               if alert_triggered a then
                 (case log_alert cfg rt a of
                    Inl e \<Rightarrow>
                      \<lparr>raised = Some e, logged = [log_started, log_failed], notified = [],
                       sent = [], slept = naps\<rparr>
                  | Inr alert_line \<Rightarrow>
                      (case send_rain_alert_email cfg rt (smtp_at w) a of
                         (Inl e, naps') \<Rightarrow>
                           \<lparr>raised = Some e, logged = [log_started, alert_line, log_failed],
                            notified = [a], sent = [], slept = naps @ naps'\<rparr>
                       | (Inr msg, naps') \<Rightarrow>
                           \<lparr>raised = None, logged = [log_started, alert_line, log_completed],
                            notified = [a], sent = [msg], slept = naps @ naps'\<rparr>))
               else
                 (case log_no_alert cfg rt a of
                    Inl e \<Rightarrow>
                      \<lparr>raised = Some e, logged = [log_started, log_failed], notified = [],
                       sent = [], slept = naps\<rparr>
                  | Inr no_alert_line \<Rightarrow>
                      \<lparr>raised = None, logged = [log_started, no_alert_line, log_completed],
                       notified = [], sent = [], slept = naps\<rparr>)))"

section \<open>Notions of the specification\<close>

text \<open>A JSON value that is a Python number.\<close>

definition is_number :: "json \<Rightarrow> bool" where
  "is_number x = (case x of JNum n \<Rightarrow> True | _ \<Rightarrow> False)"


text \<open>A JSON value that is a str.\<close>

definition is_string :: "json \<Rightarrow> bool" where
  "is_string x = (case x of JStr s \<Rightarrow> True | _ \<Rightarrow> False)"

text \<open>A number that is not an int of 100 digits or more.\<close>

definition small_number :: "json \<Rightarrow> bool" where
  "small_number x = (case x of JNum (PInt i) \<Rightarrow> \<bar>i\<bar> < 10 ^ 100 | JNum n \<Rightarrow> True | _ \<Rightarrow> False)"

text \<open>
  An interpreter that converts every int below \<open>10 ^ 300\<close> in magnitude to a float and
  to a str. Every Python does: the floats reach beyond \<open>10 ^ 308\<close>, and the digit limit
  of the str conversion cannot be set below 640.
\<close>

definition runtime_ok :: "runtime \<Rightarrow> bool" where
  "runtime_ok rt \<longleftrightarrow>
     (\<forall>i. \<bar>i\<bar> < 10 ^ 300 \<longrightarrow> float_of_int rt i \<noteq> None \<and> \<not> int_str_fails rt i)"

text \<open>
  The running maximum, when an int, is below \<open>10 ^ 100\<close> in magnitude, and the running
  total is an int of at most \<open>10 ^ 100\<close> times the number of entries recorded, or a
  float.
\<close>

definition bounded_totals :: "analysis \<Rightarrow> bool" where
  "bounded_totals a \<longleftrightarrow>
     (\<forall>m. max_probability a = PInt m \<longrightarrow> \<bar>m\<bar> < 10 ^ 100) \<and>
     (\<forall>t. total_precipitation a = PInt t \<longrightarrow> \<bar>t\<bar> \<le> int (length (hours_data a)) * 10 ^ 100) \<and>
     (\<forall>b. total_precipitation a \<noteq> PBool b)"

text \<open>An entry whose amount is an int or a bool, and that amount as an int.\<close>

definition int_amount :: "hour_data \<Rightarrow> bool" where
  "int_amount h = (case precipitation h of JNum (PFloat q) \<Rightarrow> False | JNum n \<Rightarrow> True | _ \<Rightarrow> False)"

definition amount_int :: "hour_data \<Rightarrow> int" where
  "amount_int h = (case precipitation h of JNum n \<Rightarrow> int_val n | _ \<Rightarrow> 0)"

text \<open>The probability of an hour-detail entry, as a number.\<close>

definition prob_val :: "hour_data \<Rightarrow> rat" where
  "prob_val h = (case probability h of JNum n \<Rightarrow> num_val n | _ \<Rightarrow> 0)"

text \<open>
  What every turn of the loop keeps: the entries recorded hold numbers, the running
  maximum is 0 or one of the recorded probabilities and has the value of the greatest of
  them and 0, and the alert flag is set exactly when an entry has been recorded whose
  probability reaches the threshold or that was recorded in testing mode.
\<close>

definition summary_inv :: "config \<Rightarrow> analysis \<Rightarrow> bool" where
  "summary_inv cfg a \<longleftrightarrow>
     (\<forall>h \<in> set (hours_data a). is_number (probability h) \<and> is_number (precipitation h)) \<and>
     (max_probability a = PInt 0
        \<or> JNum (max_probability a) \<in> probability ` set (hours_data a)) \<and>
     num_val (max_probability a) = Max (insert 0 (prob_val ` set (hours_data a))) \<and>
     (alert_triggered a \<longleftrightarrow>
        (\<exists>h \<in> set (hours_data a).
           of_int (RAIN_THRESHOLD cfg) \<le> prob_val h \<or> TESTING_MODE cfg))"

section \<open>Sample inputs\<close>

text \<open>
  A runtime for the examples. Its \<open>fromisoformat\<close> reads the one format the API's
  timestamps have after the replacement of \<open>T\<close>, \<open>YYYY-MM-DD HH:MM\<close>; it converts the
  ints below \<open>2 ^ 1023\<close> in magnitude to floats, and \<open>str\<close> fails on the ints of more
  than 4300 digits. The examples are series of ints and strs, on which \<open>float_add\<close>,
  \<open>float_of_int\<close>, \<open>float_str\<close> and \<open>container_str\<close> are never called.
\<close>

definition digit_of :: "char \<Rightarrow> nat option" where
  "digit_of c = map_of (zip ''0123456789'' [0..<10]) c"

fun parse_nat :: "nat \<Rightarrow> string \<Rightarrow> nat option" where
  "parse_nat acc [] = Some acc"
| "parse_nat acc (c # s) =
     (case digit_of c of None \<Rightarrow> None | Some d \<Rightarrow> parse_nat (10 * acc + d) s)"

definition sample_fromisoformat :: "string \<Rightarrow> datetime option" where
  "sample_fromisoformat s =
     (if length s = 16 \<and> s ! 4 = CHR ''-'' \<and> s ! 7 = CHR ''-'' \<and> s ! 10 = CHR '' ''
           \<and> s ! 13 = CHR '':''
      then
        (case (parse_nat 0 (take 4 s), parse_nat 0 (take 2 (drop 5 s)),
               parse_nat 0 (take 2 (drop 8 s)), parse_nat 0 (take 2 (drop 11 s)),
               parse_nat 0 (take 2 (drop 14 s))) of
           (Some y, Some m, Some d, Some h, Some mi) \<Rightarrow>
             Some \<lparr>year = y, month = m, day = d, hour = h, minute = mi, second = 0\<rparr>
         | _ \<Rightarrow> None)
      else None)"

definition sample_runtime :: runtime where
  "sample_runtime =
     \<lparr>float_add = (\<lambda>a b. a + b),
      float_of_int = (\<lambda>i. if \<bar>i\<bar> < 2 ^ 1023 then Some (of_int i) else None),
      int_str_fails = (\<lambda>i. 4300 < length (str_nat (nat \<bar>i\<bar>))),
      float_str = (\<lambda>q. ''float''),
      container_str = (\<lambda>x. Inr ''container''), fromisoformat = sample_fromisoformat\<rparr>"

text \<open>
  A day of 24 hourly samples with the probabilities 10, 20, 60, 30 and then 5, and a
  clock in the hour of index 2.
\<close>

definition sample_time_strs :: "string list" where
  "sample_time_strs = map (\<lambda>h. ''2026-11-04T'' @ pad 2 h @ '':00'') [0..<24]"

definition sample_times :: "json list" where
  "sample_times = map JStr sample_time_strs"

definition sample_probabilities :: "json list" where
  "sample_probabilities = map (\<lambda>p. JNum (PInt p)) ([10, 20, 60, 30] @ replicate 20 5)"

definition sample_precipitation :: "json list" where
  "sample_precipitation = map (\<lambda>p. JNum (PInt p)) ([0, 0, 2, 1] @ replicate 20 0)"

definition sample_hourly :: json where
  "sample_hourly =
     JDict [(''time'', JList sample_times),
            (''precipitation_probability'', JList sample_probabilities),
            (''precipitation'', JList sample_precipitation)]"

definition sample_data :: json where
  "sample_data = JDict [(''timezone'', JStr ''America/Chicago''), (''hourly'', sample_hourly)]"

definition sample_now :: datetime where
  "sample_now = \<lparr>year = 2026, month = 11, day = 4, hour = 2, minute = 30, second = 15\<rparr>"

text \<open>The source's configuration with the test override switched on.\<close>

definition testing_config :: config where
  "testing_config = \<lparr>RAIN_THRESHOLD = 50, TESTING_MODE = True\<rparr>"

text \<open>A response whose hourly arrays are empty.\<close>

definition empty_series :: json where
  "empty_series =
     JDict [(''hourly'',
             JDict [(''time'', JList []), (''precipitation_probability'', JList []),
                    (''precipitation'', JList [])])]"

text \<open>A world where every request returns the sample and every send succeeds.\<close>

definition sample_world :: world where
  "sample_world =
     \<lparr>http_at = (\<lambda>k u. Body sample_data), smtp_at = (\<lambda>k. None), index_clock = sample_now,
      check_clock = sample_now\<rparr>"

text \<open>The summary of the sample at the sample clock.\<close>

definition sample_summary :: analysis where
  "sample_summary =
     \<lparr>city = ''Madison'', check_time = ''2026-11-04 02:30:15'',
      hours_data =
        [\<lparr>time = JStr ''2026-11-04T02:00'', probability = JNum (PInt 60),
          precipitation = JNum (PInt 2)\<rparr>,
         \<lparr>time = JStr ''2026-11-04T03:00'', probability = JNum (PInt 30),
          precipitation = JNum (PInt 1)\<rparr>,
         \<lparr>time = JStr ''2026-11-04T04:00'', probability = JNum (PInt 5),
          precipitation = JNum (PInt 0)\<rparr>],
      max_probability = PInt 60, total_precipitation = PInt 3, alert_triggered = True\<rparr>"

text \<open>Five hours of the sample, the probability of the fourth missing (JSON \<open>null\<close>).\<close>

definition null_hour_data :: json where
  "null_hour_data =
     JDict [(''hourly'',
             JDict [(''time'', JList (take 5 sample_times)),
                    (''precipitation_probability'',
                     JList [JNum (PInt 10), JNum (PInt 20), JNum (PInt 60), JNull, JNum (PInt 5)]),
                    (''precipitation'', JList (take 5 sample_precipitation))])]"

definition null_hour_world :: world where
  "null_hour_world =
     \<lparr>http_at = (\<lambda>k u. Body null_hour_data), smtp_at = (\<lambda>k. None), index_clock = sample_now,
      check_clock = sample_now\<rparr>"

text \<open>
  A timestamp matches the current hour when its prefix up to the hour is that of the
  current-hour string.
\<close>

definition hour_matches :: "datetime \<Rightarrow> string \<Rightarrow> bool" where
  "hour_matches current_time time_str \<longleftrightarrow> take 13 time_str = take 13 (strftime_hour current_time)"

text \<open>A clock on the day after the sample's.\<close>

definition other_day :: datetime where
  "other_day = \<lparr>year = 2026, month = 11, day = 5, hour = 14, minute = 0, second = 0\<rparr>"


text \<open>
  Attempt \<open>k\<close> is the first that succeeds, with result \<open>v\<close>; the first \<open>n\<close>
  attempts all fail.
\<close>

definition first_success :: "(nat \<Rightarrow> error + 'a) \<Rightarrow> nat \<Rightarrow> 'a \<Rightarrow> bool" where
  "first_success attempt k v \<longleftrightarrow>
     1 \<le> k \<and> attempt k = Inr v \<and> list_all (\<lambda>j. isl (attempt j)) [1..<k]"

definition all_fail :: "(nat \<Rightarrow> error + 'a) \<Rightarrow> nat \<Rightarrow> bool" where
  "all_fail attempt n \<longleftrightarrow> list_all (\<lambda>j. isl (attempt j)) [1..<Suc n]"

text \<open>
  Worlds for the retry policy: the network times out 14 times and the mail service fails
  twice; the network always fails; the mail service always fails.
\<close>

definition flaky_world :: world where
  "flaky_world =
     \<lparr>http_at = (\<lambda>k u. if k < 15 then TimedOut else Body sample_data),
      smtp_at = (\<lambda>k. if k < 3 then Some SMTPError else None),
      index_clock = sample_now, check_clock = sample_now\<rparr>"

definition dead_world :: world where
  "dead_world =
     \<lparr>http_at = (\<lambda>k u. Failed), smtp_at = (\<lambda>k. None), index_clock = sample_now,
      check_clock = sample_now\<rparr>"

definition no_mail_world :: world where
  "no_mail_world =
     \<lparr>http_at = (\<lambda>k u. Body sample_data), smtp_at = (\<lambda>k. Some SMTPError),
      index_clock = sample_now, check_clock = sample_now\<rparr>"

text \<open>The message that a successful send of the sample summary delivers.\<close>

definition sample_message :: message where
  "sample_message =
     projr (send_rain_alert_email_try source_config sample_runtime None sample_summary)"

text \<open>A run on the following day: no timestamp matches, and hour 14 has probability 5.\<close>

definition quiet_world :: world where
  "quiet_world =
     \<lparr>http_at = (\<lambda>k u. Body sample_data), smtp_at = (\<lambda>k. None), index_clock = other_day,
      check_clock = other_day\<rparr>"

definition quiet_summary :: analysis where
  "quiet_summary =
     the (analyze_rain_probability source_config sample_runtime other_day other_day sample_data
            DEFAULT_CITY)"






text \<open>Five hours of the sample with negative numbers in the place of the probabilities.\<close>

definition negative_series :: json where
  "negative_series =
     JDict [(''hourly'',
             JDict [(''time'', JList (take 5 sample_times)),
                    (''precipitation_probability'',
                     JList [JNum (PInt (- 5)), JNum (PInt (- 3)), JNum (PInt (- 1)),
                            JNum (PInt (- 2)), JNum (PInt (- 4))]),
                    (''precipitation'', JList (take 5 sample_precipitation))])]"

section \<open>The loop of the analysis\<close>

lemma andthen_Inr_iff: "andthen m f = Inr y \<longleftrightarrow> (\<exists>x. m = Inr x \<and> f x = Inr y)"
  by (cases m) auto

lemma py_max_Inr_iff:
  "py_max a x = Inr m \<longleftrightarrow> (\<exists>n. x = JNum n \<and> m = (if num_val n > num_val a then n else a))"
  by (cases x) (auto simp: py_max_def)

lemma py_add_Inr_iff: "py_add rt a x = Inr s \<longleftrightarrow> (\<exists>n. x = JNum n \<and> num_add rt a n = Inr s)"
  by (cases x) (auto simp: py_add_def)

lemma py_ge_JNum: "py_ge (JNum n) t = Inr (of_int t \<le> num_val n)"
  by (simp add: py_ge_def)

lemma analyze_hour_skip:
  assumes "py_len tms = Inr n" "\<not> current_index + i < n"
  shows "analyze_hour cfg rt tms probabilities precipitations current_index a i = Inr a"
  using assms by (simp add: analyze_hour_def)

lemma analyze_hour_take:
  assumes "py_len tms = Inr n" "current_index + i < n"
    and "py_index tms (current_index + i) = Inr t"
    and "py_index probabilities (current_index + i) = Inr (JNum pn)"
    and "py_index precipitations (current_index + i) = Inr (JNum qn)"
    and "num_add rt (total_precipitation a) qn = Inr tp"
    and "hour_log_text rt i t (JNum pn) (JNum qn) = Inr shown"
  shows "analyze_hour cfg rt tms probabilities precipitations current_index a i =
           Inr (a\<lparr>hours_data :=
                     hours_data a @ [\<lparr>time = t, probability = JNum pn, precipitation = JNum qn\<rparr>],
                   max_probability :=
                     (if num_val pn > num_val (max_probability a) then pn else max_probability a),
                   total_precipitation := tp,
                   alert_triggered :=
                     (of_int (RAIN_THRESHOLD cfg) \<le> num_val pn \<or> TESTING_MODE cfg
                        \<or> alert_triggered a)\<rparr>)"
  using assms by (simp add: analyze_hour_def py_max_def py_add_def py_ge_def)

lemma analyze_hour_cases:
  assumes "analyze_hour cfg rt tms probabilities precipitations current_index a i = Inr a'"
  obtains (skip) n where "py_len tms = Inr n" "\<not> current_index + i < n" "a' = a"
  | (take) n t pn qn tp where "py_len tms = Inr n" "current_index + i < n"
      "py_index tms (current_index + i) = Inr t"
      "py_index probabilities (current_index + i) = Inr (JNum pn)"
      "py_index precipitations (current_index + i) = Inr (JNum qn)"
      "a' = a\<lparr>hours_data :=
                     hours_data a @ [\<lparr>time = t, probability = JNum pn, precipitation = JNum qn\<rparr>],
                   max_probability :=
                     (if num_val pn > num_val (max_probability a) then pn else max_probability a),
                   total_precipitation := tp,
                   alert_triggered :=
                     (of_int (RAIN_THRESHOLD cfg) \<le> num_val pn \<or> TESTING_MODE cfg
                        \<or> alert_triggered a)\<rparr>"
      "num_add rt (total_precipitation a) qn = Inr tp"
proof -
  from assms obtain n where n: "py_len tms = Inr n"
    by (cases "py_len tms") (auto simp: analyze_hour_def Let_def)
  show thesis
  proof (cases "current_index + i < n")
    case False
    with n assms have "a' = a" by (simp add: analyze_hour_def)
    with n False show thesis by (rule skip)
  next
    case True
    with n assms obtain t pn qn tp shown where f:
      "py_index tms (current_index + i) = Inr t"
      "py_index probabilities (current_index + i) = Inr (JNum pn)"
      "py_index precipitations (current_index + i) = Inr (JNum qn)"
      "num_add rt (total_precipitation a) qn = Inr tp"
      "hour_log_text rt i t (JNum pn) (JNum qn) = Inr shown"
      by (auto simp: analyze_hour_def andthen_Inr_iff py_max_Inr_iff py_add_Inr_iff Let_def)
    from f n True assms have "a' = a\<lparr>hours_data :=
                     hours_data a @ [\<lparr>time = t, probability = JNum pn, precipitation = JNum qn\<rparr>],
                   max_probability :=
                     (if num_val pn > num_val (max_probability a) then pn else max_probability a),
                   total_precipitation := tp,
                   alert_triggered :=
                     (of_int (RAIN_THRESHOLD cfg) \<le> num_val pn \<or> TESTING_MODE cfg
                        \<or> alert_triggered a)\<rparr>"
      by (simp add: analyze_hour_take)
    from n True f(1-3) this f(4) show thesis by (rule take)
  qed
qed

lemma Max_insert0_step:
  fixes S :: "rat set"
  assumes "finite S"
  shows "Max (insert 0 (insert x S)) = max x (Max (insert 0 S))"
proof -
  have "insert 0 (insert x S) = insert x (insert 0 S)" by (rule insert_commute)
  moreover have "Max (insert x (insert 0 S)) = max x (Max (insert 0 S))"
    using assms by (intro Max_insert) auto
  ultimately show ?thesis by simp
qed

lemma summary_inv_step:
  assumes inv: "summary_inv cfg a"
    and step: "analyze_hour cfg rt tms probabilities precipitations current_index a i = Inr a'"
  shows "summary_inv cfg a'"
  using step
proof (cases rule: analyze_hour_cases)
  case (skip n)
  with inv show ?thesis by simp
next
  case (take n t pn qn tp)
  let ?h = "\<lparr>time = t, probability = JNum pn, precipitation = JNum qn\<rparr>"
  have hs: "hours_data a' = hours_data a @ [?h]" using take(6) by simp
  have pv: "prob_val ?h = num_val pn" by (simp add: prob_val_def)
  have c1: "\<forall>h \<in> set (hours_data a'). is_number (probability h) \<and> is_number (precipitation h)"
    using inv hs by (auto simp: summary_inv_def is_number_def)
  have c2: "max_probability a' = PInt 0 \<or> JNum (max_probability a') \<in> probability ` set (hours_data a')"
  proof (cases "num_val pn > num_val (max_probability a)")
    case True
    then have "max_probability a' = pn" using take(6) by simp
    then show ?thesis using hs by (auto simp: image_iff intro: bexI[of _ ?h])
  next
    case False
    then have "max_probability a' = max_probability a" using take(6) by simp
    then show ?thesis using inv hs by (auto simp: summary_inv_def)
  qed
  have "num_val (max_probability a') = max (num_val pn) (num_val (max_probability a))"
    using take(6) by (simp add: max_def)
  also have "\<dots> = max (num_val pn) (Max (insert 0 (prob_val ` set (hours_data a))))"
    using inv by (simp add: summary_inv_def)
  also have "\<dots> = Max (insert 0 (insert (num_val pn) (prob_val ` set (hours_data a))))"
    using Max_insert0_step[of "prob_val ` set (hours_data a)" "num_val pn"] by (simp del: Max_insert)
  also have "insert (num_val pn) (prob_val ` set (hours_data a)) = prob_val ` set (hours_data a')"
    using hs pv by simp
  finally have c3: "num_val (max_probability a') = Max (insert 0 (prob_val ` set (hours_data a')))" .
  have c4: "alert_triggered a' \<longleftrightarrow>
        (\<exists>h \<in> set (hours_data a'). of_int (RAIN_THRESHOLD cfg) \<le> prob_val h \<or> TESTING_MODE cfg)"
  proof -
    have "alert_triggered a' \<longleftrightarrow>
            of_int (RAIN_THRESHOLD cfg) \<le> num_val pn \<or> TESTING_MODE cfg \<or> alert_triggered a"
      using take(6) by simp
    then show ?thesis using inv hs pv by (auto simp: summary_inv_def)
  qed
  from c1 c2 c3 c4 show ?thesis unfolding summary_inv_def by blast
qed

lemma summary_inv_loop:
  assumes "summary_inv cfg a"
    and "analyze_loop cfg rt tms probabilities precipitations current_index idxs a = Inr a'"
  shows "summary_inv cfg a'"
  using assms
proof (induction idxs arbitrary: a)
  case Nil
  then show ?case by simp
next
  case (Cons i idxs)
  from Cons.prems(2) obtain b where
    b: "analyze_hour cfg rt tms probabilities precipitations current_index a i = Inr b"
    and rest: "analyze_loop cfg rt tms probabilities precipitations current_index idxs b = Inr a'"
    by (auto simp: andthen_Inr_iff)
  from Cons.prems(1) b have "summary_inv cfg b" by (rule summary_inv_step)
  then show ?case using rest by (rule Cons.IH)
qed

lemma analyze_from_inv:
  assumes "analyze_from cfg rt check data city_key current_index = Inr a"
  shows "summary_inv cfg a"
proof -
  from assms obtain tms probabilities precipitations where
    "analyze_loop cfg rt tms probabilities precipitations current_index [0, 1, 2]
         \<lparr>city = city_name_of city_key, check_time = strftime_check check, hours_data = [],
          max_probability = PInt 0, total_precipitation = PInt 0, alert_triggered = False\<rparr> = Inr a"
    by (auto simp: analyze_from_def andthen_Inr_iff simp del: analyze_loop.simps)
  moreover have "summary_inv cfg \<lparr>city = city_name_of city_key, check_time = strftime_check check, hours_data = [],
          max_probability = PInt 0, total_precipitation = PInt 0, alert_triggered = False\<rparr>"
    by (simp add: summary_inv_def)
  ultimately show ?thesis by (rule summary_inv_loop[rotated])
qed

lemma analyze_Some_iff:
  "analyze_rain_probability cfg rt now check data city_key = Some a \<longleftrightarrow>
     analyze_from cfg rt check data city_key (get_current_hour_index now data) = Inr a"
  by (cases "analyze_from cfg rt check data city_key (get_current_hour_index now data)")
     (simp_all add: analyze_rain_probability_def analyze_rain_probability_try_def)

section \<open>The hour-detail entries\<close>

lemma py_len_JList: "py_len (JList xs) = Inr (length xs)"
  by (simp add: py_len_def)

lemma py_index_JList_Inr: "py_index (JList xs) j = Inr x \<longleftrightarrow> j < length xs \<and> x = xs ! j"
  by (auto simp: py_index_def)

lemma analyze_loop_entries:
  assumes "analyze_loop cfg rt (JList ts) (JList ps) (JList qs) cur idxs a = Inr a'"
  shows "hours_data a' =
           hours_data a
             @ map (\<lambda>i. \<lparr>time = ts ! (cur + i), probability = ps ! (cur + i),
                          precipitation = qs ! (cur + i)\<rparr>)
                 (filter (\<lambda>i. cur + i < length ts) idxs)"
  using assms
proof (induction idxs arbitrary: a)
  case Nil
  then show ?case by simp
next
  case (Cons i idxs)
  from Cons.prems obtain b where
    b: "analyze_hour cfg rt (JList ts) (JList ps) (JList qs) cur a i = Inr b"
    and rest: "analyze_loop cfg rt (JList ts) (JList ps) (JList qs) cur idxs b = Inr a'"
    by (auto simp: andthen_Inr_iff)
  note IH = Cons.IH[OF rest]
  from b show ?case
  proof (cases rule: analyze_hour_cases)
    case (skip n)
    then show ?thesis using IH by (simp add: py_len_JList)
  next
    case (take n t pn qn tp)
    then show ?thesis using IH by (simp add: py_len_JList py_index_JList_Inr)
  qed
qed

lemma small_bounds:
  shows "(1::int) \<le> 10 ^ 100" and "(3::int) * 10 ^ 100 < 10 ^ 300" and "(10::int) ^ 100 < 10 ^ 300"
  by simp_all

lemma small_PInt: "small_number (JNum n) \<Longrightarrow> n = PInt m \<Longrightarrow> \<bar>m\<bar> < 10 ^ 100"
  by (simp add: small_number_def)

lemma str_num_ok:
  assumes "runtime_ok rt" and "\<forall>i. n = PInt i \<longrightarrow> \<bar>i\<bar> < 10 ^ 300"
  shows "\<exists>s. str_num rt n = Inr s"
  using assms by (cases n) (auto simp: runtime_ok_def)

lemma py_str_small:
  assumes "runtime_ok rt" and "small_number x"
  shows "\<exists>s. py_str rt x = Inr s"
proof -
  from assms(2) obtain n where n: "x = JNum n"
    by (auto simp: small_number_def split: json.splits)
  have "\<forall>i. n = PInt i \<longrightarrow> \<bar>i\<bar> < 10 ^ 300"
  proof (intro allI impI)
    fix i assume "n = PInt i"
    with assms(2) n have "\<bar>i\<bar> < 10 ^ 100" using small_PInt by blast
    with small_bounds(3) show "\<bar>i\<bar> < 10 ^ 300" by linarith
  qed
  from str_num_ok[OF assms(1) this] n show ?thesis by simp
qed

lemma to_float_ok:
  assumes "runtime_ok rt" and "\<forall>i. n = PInt i \<longrightarrow> \<bar>i\<bar> < 10 ^ 300"
  shows "\<exists>q. to_float rt n = Inr q"
  using assms by (cases n) (auto simp: runtime_ok_def)

lemma num_add_ok:
  assumes rt: "runtime_ok rt"
    and tot: "\<forall>t. tot0 = PInt t \<longrightarrow> \<bar>t\<bar> \<le> int k * 10 ^ 100"
    and nb: "\<forall>b. tot0 \<noteq> PBool b"
    and k: "k \<le> 2"
    and small: "small_number (JNum qn)"
  shows "\<exists>tp. num_add rt tot0 qn = Inr tp \<and>
              (\<forall>t. tp = PInt t \<longrightarrow> \<bar>t\<bar> \<le> int (Suc k) * 10 ^ 100) \<and>
              (\<forall>b. tp \<noteq> PBool b)"
proof -
  define B :: int where "B = 10 ^ 100"
  have B1: "1 \<le> B" and B3: "3 * B < 10 ^ 300"
    using small_bounds by (simp_all add: B_def)
  have kB: "int k * B \<le> 2 * B" using k B1 by (simp add: mult_right_mono)
  have tot': "\<forall>t. tot0 = PInt t \<longrightarrow> \<bar>t\<bar> \<le> int k * B" using tot by (simp add: B_def)
  have q': "\<forall>q. qn = PInt q \<longrightarrow> \<bar>q\<bar> < B" using small small_PInt unfolding B_def by blast
  have f1: "\<forall>i. tot0 = PInt i \<longrightarrow> \<bar>i\<bar> < 10 ^ 300"
  proof (intro allI impI)
    fix i assume "tot0 = PInt i"
    with tot' have "\<bar>i\<bar> \<le> int k * B" by blast
    with kB B3 B1 show "\<bar>i\<bar> < 10 ^ 300" by linarith
  qed
  have f2: "\<forall>i. qn = PInt i \<longrightarrow> \<bar>i\<bar> < 10 ^ 300"
  proof (intro allI impI)
    fix i assume "qn = PInt i"
    with q' have "\<bar>i\<bar> < B" by blast
    with B3 B1 show "\<bar>i\<bar> < 10 ^ 300" by linarith
  qed
  show ?thesis
  proof (cases "is_float tot0 \<or> is_float qn")
    case True
    from to_float_ok[OF rt f1] obtain x where x: "to_float rt tot0 = Inr x" ..
    from to_float_ok[OF rt f2] obtain y where y: "to_float rt qn = Inr y" ..
    from True x y have "num_add rt tot0 qn = Inr (PFloat (float_add rt x y))"
      by (simp add: num_add_def)
    then show ?thesis by simp
  next
    case False
    then have r: "num_add rt tot0 qn = Inr (PInt (int_val tot0 + int_val qn))"
      by (simp add: num_add_def)
    from False nb obtain t where t: "tot0 = PInt t" by (cases tot0) auto
    with tot' have a: "\<bar>int_val tot0\<bar> \<le> int k * B" by simp
    have b: "\<bar>int_val qn\<bar> \<le> B"
    proof (cases qn)
      case (PInt q) with q' show ?thesis by simp
    next
      case (PBool c) with B1 show ?thesis by simp
    next
      case (PFloat q) with B1 show ?thesis by simp
    qed
    have "\<bar>int_val tot0 + int_val qn\<bar> \<le> int k * B + B" using a b by linarith
    also have "\<dots> = int (Suc k) * B" by (simp add: algebra_simps)
    finally have "\<bar>int_val tot0 + int_val qn\<bar> \<le> int (Suc k) * 10 ^ 100" by (simp add: B_def)
    with r show ?thesis by simp
  qed
qed

lemma analyze_hour_ok:
  assumes rt: "runtime_ok rt"
    and bt: "bounded_totals a"
    and len: "length (hours_data a) \<le> 2"
    and eq: "length ps = length ts" "length qs = length ts"
    and win: "cur + i < length ts \<longrightarrow>
               is_string (ts ! (cur + i)) \<and> small_number (ps ! (cur + i))
               \<and> small_number (qs ! (cur + i))"
  shows "\<exists>b. analyze_hour cfg rt (JList ts) (JList ps) (JList qs) cur a i = Inr b \<and>
             bounded_totals b \<and> length (hours_data b) \<le> Suc (length (hours_data a))"
proof (cases "cur + i < length ts")
  case False
  then have "analyze_hour cfg rt (JList ts) (JList ps) (JList qs) cur a i = Inr a"
    by (simp add: analyze_hour_skip[OF py_len_JList])
  with bt show ?thesis by simp
next
  case True
  with win obtain s pn qn where v: "ts ! (cur + i) = JStr s" "ps ! (cur + i) = JNum pn"
    "qs ! (cur + i) = JNum qn"
    and sp: "small_number (JNum pn)" and sq: "small_number (JNum qn)"
    by (auto simp: is_string_def small_number_def split: json.splits)
  from bt have tot: "\<forall>t. total_precipitation a = PInt t \<longrightarrow>
                      \<bar>t\<bar> \<le> int (length (hours_data a)) * 10 ^ 100"
    and nb: "\<forall>b. total_precipitation a \<noteq> PBool b"
    and mx: "\<forall>m. max_probability a = PInt m \<longrightarrow> \<bar>m\<bar> < 10 ^ 100"
    by (simp_all add: bounded_totals_def)
  from num_add_ok[OF rt tot nb len sq] obtain tp where
    tp: "num_add rt (total_precipitation a) qn = Inr tp"
    and tpb: "\<forall>t. tp = PInt t \<longrightarrow> \<bar>t\<bar> \<le> int (Suc (length (hours_data a))) * 10 ^ 100"
    and tpn: "\<forall>b. tp \<noteq> PBool b"
    by blast
  from py_str_small[OF rt sp] obtain p where p: "py_str rt (JNum pn) = Inr p" ..
  from py_str_small[OF rt sq] obtain q where q: "py_str rt (JNum qn) = Inr q" ..
  from p q have lg: "hour_log_text rt i (JStr s) (JNum pn) (JNum qn)
                       = Inr (''Hour '' @ str_nat (i + 1) @ '': '' @ s @ '' - '' @ p
                                @ ''% chance, '' @ q @ ''mm'')"
    by (simp add: hour_log_text_def)
  let ?b = "a\<lparr>hours_data :=
                     hours_data a @ [\<lparr>time = JStr s, probability = JNum pn, precipitation = JNum qn\<rparr>],
                   max_probability :=
                     (if num_val pn > num_val (max_probability a) then pn else max_probability a),
                   total_precipitation := tp,
                   alert_triggered :=
                     (of_int (RAIN_THRESHOLD cfg) \<le> num_val pn \<or> TESTING_MODE cfg
                        \<or> alert_triggered a)\<rparr>"
  have step: "analyze_hour cfg rt (JList ts) (JList ps) (JList qs) cur a i = Inr ?b"
    using True eq v
    by (intro analyze_hour_take[OF py_len_JList _ _ _ _ tp lg])
       (simp_all add: py_index_JList_Inr)
  have "\<forall>m. pn = PInt m \<longrightarrow> \<bar>m\<bar> < 10 ^ 100" using sp small_PInt by blast
  with mx tpb tpn have "bounded_totals ?b" by (simp add: bounded_totals_def)
  with step show ?thesis by simp
qed

lemma analyze_loop_ok:
  assumes rt: "runtime_ok rt"
    and eq: "length ps = length ts" "length qs = length ts"
  shows "bounded_totals a \<Longrightarrow> length (hours_data a) + length idxs \<le> 3 \<Longrightarrow>
         \<forall>i \<in> set idxs. cur + i < length ts \<longrightarrow>
               is_string (ts ! (cur + i)) \<and> small_number (ps ! (cur + i))
               \<and> small_number (qs ! (cur + i)) \<Longrightarrow>
         \<exists>a'. analyze_loop cfg rt (JList ts) (JList ps) (JList qs) cur idxs a = Inr a' \<and>
              bounded_totals a' \<and> length (hours_data a') \<le> 3"
proof (induction idxs arbitrary: a)
  case Nil
  then show ?case by simp
next
  case (Cons i idxs)
  from Cons.prems(2) have len: "length (hours_data a) \<le> 2" by simp
  from Cons.prems(3) have win: "cur + i < length ts \<longrightarrow>
               is_string (ts ! (cur + i)) \<and> small_number (ps ! (cur + i))
               \<and> small_number (qs ! (cur + i))" by simp
  from analyze_hour_ok[OF rt Cons.prems(1) len eq win] obtain b where
    b: "analyze_hour cfg rt (JList ts) (JList ps) (JList qs) cur a i = Inr b"
    and bb: "bounded_totals b" and bl: "length (hours_data b) \<le> Suc (length (hours_data a))"
    by blast
  have "\<exists>a'. analyze_loop cfg rt (JList ts) (JList ps) (JList qs) cur idxs b = Inr a' \<and>
              bounded_totals a' \<and> length (hours_data a') \<le> 3"
  proof (rule Cons.IH[OF bb])
    show "length (hours_data b) + length idxs \<le> 3" using bl Cons.prems(2) by simp
    show "\<forall>i \<in> set idxs. cur + i < length ts \<longrightarrow>
               is_string (ts ! (cur + i)) \<and> small_number (ps ! (cur + i))
               \<and> small_number (qs ! (cur + i))" using Cons.prems(3) by simp
  qed
  with b show ?case by simp
qed

lemma summary_log_ok:
  assumes rt: "runtime_ok rt" and bt: "bounded_totals a" and len: "length (hours_data a) \<le> 3"
  shows "\<exists>s. summary_log_text rt a = Inr s"
proof -
  have m: "\<forall>i. max_probability a = PInt i \<longrightarrow> \<bar>i\<bar> < 10 ^ 300"
  proof (intro allI impI)
    fix i assume "max_probability a = PInt i"
    with bt have "\<bar>i\<bar> < 10 ^ 100" by (simp add: bounded_totals_def)
    with small_bounds(3) show "\<bar>i\<bar> < 10 ^ 300" by linarith
  qed
  have t: "\<forall>i. total_precipitation a = PInt i \<longrightarrow> \<bar>i\<bar> < 10 ^ 300"
  proof (intro allI impI)
    fix i assume "total_precipitation a = PInt i"
    with bt have "\<bar>i\<bar> \<le> int (length (hours_data a)) * 10 ^ 100" by (simp add: bounded_totals_def)
    also have "\<dots> \<le> 3 * 10 ^ 100" using len by (simp add: mult_right_mono)
    finally show "\<bar>i\<bar> < 10 ^ 300" using small_bounds(2) by linarith
  qed
  from str_num_ok[OF rt m] obtain x where "str_num rt (max_probability a) = Inr x" ..
  moreover from str_num_ok[OF rt t] obtain y where "str_num rt (total_precipitation a) = Inr y" ..
  ultimately show ?thesis by (simp add: summary_log_text_def)
qed

lemma window_filter:
  "filter (\<lambda>k. i + k < L) [0, 1, 2::nat] = [0..<min 3 (L - i)]"
proof -
  consider "i + 2 < L" | "i + 2 = L" | "i + 1 = L" | "L \<le> i" by linarith
  then show ?thesis
  proof cases
    case 1
    then have "min 3 (L - i) = 3" by simp
    with 1 show ?thesis by (simp add: upt_rec)
  next
    case 2
    then have "min 3 (L - i) = 2" by simp
    with 2 show ?thesis by (simp add: upt_rec)
  next
    case 3
    then have "min 3 (L - i) = 1" by simp
    with 3 show ?thesis by (simp add: upt_rec)
  next
    case 4
    then show ?thesis by simp
  qed
qed

lemma window_length: "int (min 3 (L - i)) = min 3 (max 0 (int L - int i))"
  by auto

lemma analyze_from_entries:
  assumes "py_getitem data ''hourly'' = Inr hourly"
    and "py_getitem hourly ''time'' = Inr (JList ts)"
    and "py_getitem hourly ''precipitation_probability'' = Inr (JList ps)"
    and "py_getitem hourly ''precipitation'' = Inr (JList qs)"
    and "analyze_from cfg rt check data city_key i = Inr a"
  shows "hours_data a =
           map (\<lambda>k. \<lparr>time = ts ! (i + k), probability = ps ! (i + k),
                        precipitation = qs ! (i + k)\<rparr>) [0..<min 3 (length ts - i)]"
proof -
  from assms have "analyze_loop cfg rt (JList ts) (JList ps) (JList qs) i [0, 1, 2]
         \<lparr>city = city_name_of city_key, check_time = strftime_check check, hours_data = [],
          max_probability = PInt 0, total_precipitation = PInt 0, alert_triggered = False\<rparr> = Inr a"
    by (auto simp: analyze_from_def andthen_Inr_iff simp del: analyze_loop.simps)
  from analyze_loop_entries[OF this] show ?thesis
    by (simp only: window_filter) simp
qed

lemma analyze_from_ok:
  assumes "py_getitem data ''hourly'' = Inr hourly"
    and "py_getitem hourly ''time'' = Inr (JList ts)"
    and "py_getitem hourly ''precipitation_probability'' = Inr (JList ps)"
    and "py_getitem hourly ''precipitation'' = Inr (JList qs)"
    and "length ps = length ts" "length qs = length ts"
    and "runtime_ok rt"
    and "\<forall>k < 3. i + k < length ts \<longrightarrow>
           is_string (ts ! (i + k)) \<and> small_number (ps ! (i + k)) \<and> small_number (qs ! (i + k))"
  shows "\<exists>a. analyze_from cfg rt check data city_key i = Inr a"
proof -
  let ?a0 = "\<lparr>city = city_name_of city_key, check_time = strftime_check check, hours_data = [],
          max_probability = PInt 0, total_precipitation = PInt 0, alert_triggered = False\<rparr>"
  have win: "\<forall>k \<in> set [0, 1, 2::nat]. i + k < length ts \<longrightarrow>
           is_string (ts ! (i + k)) \<and> small_number (ps ! (i + k)) \<and> small_number (qs ! (i + k))"
    using assms(8)[rule_format, of 0] assms(8)[rule_format, of 1] assms(8)[rule_format, of 2]
    by simp
  have b0: "bounded_totals ?a0" by (simp add: bounded_totals_def)
  have l0: "length (hours_data ?a0) + length [0, 1, 2::nat] \<le> 3" by simp
  from analyze_loop_ok[OF assms(7,5,6) b0 l0 win] obtain a where
    a: "analyze_loop cfg rt (JList ts) (JList ps) (JList qs) i [0, 1, 2] ?a0 = Inr a"
    and ba: "bounded_totals a" and la: "length (hours_data a) \<le> 3"
    by blast
  from summary_log_ok[OF assms(7) ba la] obtain s where "summary_log_text rt a = Inr s" ..
  with a assms(1-4) have "analyze_from cfg rt check data city_key i = Inr a"
    by (simp add: analyze_from_def del: analyze_loop.simps)
  then show ?thesis ..
qed

lemma analyze_shows_max:
  assumes "analyze_rain_probability cfg rt now check data city_key = Some a"
  shows "\<exists>m. str_num rt (max_probability a) = Inr m"
proof -
  from assms have "analyze_from cfg rt check data city_key (get_current_hour_index now data) = Inr a"
    by (simp add: analyze_Some_iff)
  then obtain s where "summary_log_text rt a = Inr s"
    by (auto simp: analyze_from_def andthen_Inr_iff simp del: analyze_loop.simps)
  then show ?thesis by (auto simp: summary_log_text_def andthen_Inr_iff)
qed

lemma str_nat_length: "0 < k \<Longrightarrow> n < 10 ^ k \<Longrightarrow> length (str_nat n) \<le> k"
proof (induction k arbitrary: n)
  case 0
  then show ?case by simp
next
  case (Suc k)
  show ?case
  proof (cases "n < 10")
    case True
    then show ?thesis by (simp add: str_nat.simps[of n])
  next
    case False
    with Suc.prems(2) have k: "0 < k" by (cases k) auto
    from Suc.prems(2) have "n div 10 < 10 ^ k" by (simp add: less_mult_imp_div_less mult.commute)
    from Suc.IH[OF k this] False show ?thesis by (simp add: str_nat.simps[of n])
  qed
qed

lemma sample_runtime_ok: "runtime_ok sample_runtime"
  unfolding runtime_ok_def
proof (intro allI impI conjI)
  fix i :: int
  assume i: "\<bar>i\<bar> < 10 ^ 300"
  have "(10::int) ^ 300 \<le> 2 ^ 1023" by simp
  with i have "\<bar>i\<bar> < 2 ^ 1023" by linarith
  then show "float_of_int sample_runtime i \<noteq> None" by (simp add: sample_runtime_def)
  from i have "nat \<bar>i\<bar> < 10 ^ 300" by (simp add: nat_less_iff)
  then have "length (str_nat (nat \<bar>i\<bar>)) \<le> 300" by (intro str_nat_length) simp_all
  then show "\<not> int_str_fails sample_runtime i" by (simp add: sample_runtime_def)
qed

text \<open>
  C3. For a forecast series whose time, probability and amount arrays are lists of one
  length \<open>L\<close>, and the resolved current-hour index \<open>i\<close>: a summary that
  \<open>analyze_rain_probability\<close> returns has exactly \<open>min(3, max(0, L - i))\<close> hour-detail
  entries, and its \<open>k\<close>-th entry holds the time, probability and amount at index
  \<open>i + k\<close> of the series. Positions beyond the end of the series are skipped without
  error: the turn of the loop for such a position returns the summary as it is; and a
  summary is returned whenever, at the positions inside the series, the timestamps are
  strs and the probabilities and amounts are numbers with ints of fewer than 100 digits,
  on an interpreter that converts every int of up to 300 digits to a float and to a str.
\<close>

theorem analyze_hour_entries:
  assumes "py_getitem data ''hourly'' = Inr hourly"
    and "py_getitem hourly ''time'' = Inr (JList ts)"
    and "py_getitem hourly ''precipitation_probability'' = Inr (JList ps)"
    and "py_getitem hourly ''precipitation'' = Inr (JList qs)"
    and "length ps = length ts" and "length qs = length ts"
    and "get_current_hour_index now data = i"
  shows "(\<forall>a. analyze_rain_probability cfg rt now check data city_key = Some a \<longrightarrow>
            int (length (hours_data a)) = min 3 (max 0 (int (length ts) - int i)) \<and>
            (\<forall>k < length (hours_data a).
               hours_data a ! k =
                 \<lparr>time = ts ! (i + k), probability = ps ! (i + k),
                  precipitation = qs ! (i + k)\<rparr>))
       \<and> (\<forall>a k. length ts \<le> i + k \<longrightarrow>
              analyze_hour cfg rt (JList ts) (JList ps) (JList qs) i a k = Inr a)
       \<and> (runtime_ok rt \<and>
            (\<forall>k < 3. i + k < length ts \<longrightarrow>
               is_string (ts ! (i + k)) \<and> small_number (ps ! (i + k))
               \<and> small_number (qs ! (i + k))) \<longrightarrow>
            analyze_rain_probability cfg rt now check data city_key \<noteq> None)"
proof (intro conjI allI impI)
  fix a
  assume "analyze_rain_probability cfg rt now check data city_key = Some a"
  then have "analyze_from cfg rt check data city_key i = Inr a"
    using assms(7) by (simp add: analyze_Some_iff)
  from analyze_from_entries[OF assms(1-4) this]
  have hs: "hours_data a =
           map (\<lambda>k. \<lparr>time = ts ! (i + k), probability = ps ! (i + k),
                        precipitation = qs ! (i + k)\<rparr>) [0..<min 3 (length ts - i)]" .
  then have "length (hours_data a) = min 3 (length ts - i)" by simp
  then show "int (length (hours_data a)) = min 3 (max 0 (int (length ts) - int i))"
    by (simp only: window_length)
  fix k
  assume "k < length (hours_data a)"
  with hs show "hours_data a ! k =
                 \<lparr>time = ts ! (i + k), probability = ps ! (i + k),
                  precipitation = qs ! (i + k)\<rparr>"
    by simp
next
  fix a k
  assume "length ts \<le> i + k"
  then show "analyze_hour cfg rt (JList ts) (JList ps) (JList qs) i a k = Inr a"
    by (simp add: analyze_hour_skip[OF py_len_JList])
next
  assume h: "runtime_ok rt \<and>
            (\<forall>k < 3. i + k < length ts \<longrightarrow>
               is_string (ts ! (i + k)) \<and> small_number (ps ! (i + k))
               \<and> small_number (qs ! (i + k)))"
  then have r: "runtime_ok rt" and w: "\<forall>k < 3. i + k < length ts \<longrightarrow>
               is_string (ts ! (i + k)) \<and> small_number (ps ! (i + k))
               \<and> small_number (qs ! (i + k))" by blast+
  from analyze_from_ok[OF assms(1-6) r w]
  obtain a where "analyze_from cfg rt check data city_key i = Inr a" by blast
  then have "analyze_rain_probability cfg rt now check data city_key = Some a"
    using assms(7) by (simp add: analyze_Some_iff)
  then show "analyze_rain_probability cfg rt now check data city_key \<noteq> None" by simp
qed

theorem analyze_hour_entries_witness:
  "py_getitem sample_data ''hourly'' = Inr sample_hourly \<and>
   py_getitem sample_hourly ''time'' = Inr (JList sample_times) \<and>
   py_getitem sample_hourly ''precipitation_probability'' = Inr (JList sample_probabilities) \<and>
   py_getitem sample_hourly ''precipitation'' = Inr (JList sample_precipitation) \<and>
   length sample_probabilities = length sample_times \<and>
   length sample_precipitation = length sample_times \<and>
   get_current_hour_index sample_now sample_data = 2 \<and>
   runtime_ok sample_runtime \<and>
   is_string (sample_times ! 2) \<and> small_number (sample_probabilities ! 2) \<and>
   small_number (sample_precipitation ! 2) \<and>
   analyze_hour source_config sample_runtime (JList sample_times) (JList sample_probabilities)
     (JList sample_precipitation) 2 sample_summary 22 = Inr sample_summary \<and>
   (\<exists>a. analyze_rain_probability source_config sample_runtime sample_now sample_now
          sample_data ''madison'' = Some a \<and>
        int (length (hours_data a)) = 3 \<and>
        hours_data a ! 0 =
          \<lparr>time = JStr ''2026-11-04T02:00'', probability = JNum (PInt 60),
           precipitation = JNum (PInt 2)\<rparr> \<and>
        hours_data a ! 2 =
          \<lparr>time = JStr ''2026-11-04T04:00'', probability = JNum (PInt 5),
           precipitation = JNum (PInt 0)\<rparr>)"
proof -
  have h1: "py_getitem sample_data ''hourly'' = Inr sample_hourly" by code_simp
  have h2: "py_getitem sample_hourly ''time'' = Inr (JList sample_times)" by code_simp
  have h3: "py_getitem sample_hourly ''precipitation_probability'' = Inr (JList sample_probabilities)"
    by code_simp
  have h4: "py_getitem sample_hourly ''precipitation'' = Inr (JList sample_precipitation)"
    by code_simp
  have h5: "length sample_probabilities = length sample_times" by code_simp
  have h6: "length sample_precipitation = length sample_times" by code_simp
  have h7: "get_current_hour_index sample_now sample_data = 2" by code_simp
  have len: "length sample_times = 24" by code_simp
  have n0: "is_string (sample_times ! 2) \<and> small_number (sample_probabilities ! 2) \<and>
            small_number (sample_precipitation ! 2)"
    by code_simp
  have n1: "is_string (sample_times ! 3) \<and> small_number (sample_probabilities ! 3) \<and>
            small_number (sample_precipitation ! 3)"
    by code_simp
  have n2: "is_string (sample_times ! 4) \<and> small_number (sample_probabilities ! 4) \<and>
            small_number (sample_precipitation ! 4)"
    by code_simp
  have nums: "\<forall>k < 3. 2 + k < length sample_times \<longrightarrow>
                is_string (sample_times ! (2 + k)) \<and> small_number (sample_probabilities ! (2 + k))
                \<and> small_number (sample_precipitation ! (2 + k))"
  proof (intro allI impI)
    fix k :: nat
    assume "k < 3"
    then consider "k = 0" | "k = 1" | "k = 2" by linarith
    then show "is_string (sample_times ! (2 + k)) \<and> small_number (sample_probabilities ! (2 + k))
                \<and> small_number (sample_precipitation ! (2 + k))"
      using n0 n1 n2 by cases simp_all
  qed
  note ok = sample_runtime_ok
  note T = analyze_hour_entries[OF h1 h2 h3 h4 h5 h6 h7,
      of source_config sample_runtime sample_now "''madison''"]
  have skip: "analyze_hour source_config sample_runtime (JList sample_times)
                (JList sample_probabilities) (JList sample_precipitation) 2 sample_summary 22
              = Inr sample_summary"
    using T len by simp
  from T ok nums obtain a where
    a: "analyze_rain_probability source_config sample_runtime sample_now sample_now
          sample_data ''madison'' = Some a"
    by blast
  with T have l: "int (length (hours_data a)) = min 3 (max 0 (int (length sample_times) - int 2))"
    and e: "\<forall>k < length (hours_data a). hours_data a ! k =
                 \<lparr>time = sample_times ! (2 + k), probability = sample_probabilities ! (2 + k),
                  precipitation = sample_precipitation ! (2 + k)\<rparr>"
    by blast+
  from l len have l3: "int (length (hours_data a)) = 3" by simp
  have v0: "sample_times ! 2 = JStr ''2026-11-04T02:00''" "sample_probabilities ! 2 = JNum (PInt 60)"
    "sample_precipitation ! 2 = JNum (PInt 2)" by code_simp+
  have v2: "sample_times ! 4 = JStr ''2026-11-04T04:00''" "sample_probabilities ! 4 = JNum (PInt 5)"
    "sample_precipitation ! 4 = JNum (PInt 0)" by code_simp+
  from l3 e[rule_format, of 0] v0 have e0: "hours_data a ! 0 =
          \<lparr>time = JStr ''2026-11-04T02:00'', probability = JNum (PInt 60),
           precipitation = JNum (PInt 2)\<rparr>" by simp
  from l3 e[rule_format, of 2] v2 have e2: "hours_data a ! 2 =
          \<lparr>time = JStr ''2026-11-04T04:00'', probability = JNum (PInt 5),
           precipitation = JNum (PInt 0)\<rparr>" by simp
  from h1 h2 h3 h4 h5 h6 h7 ok n0 skip a l3 e0 e2 show ?thesis by blast
qed

lemma analyze_inv:
  assumes "analyze_rain_probability cfg rt now check data city_key = Some a"
  shows "summary_inv cfg a"
  using assms analyze_from_inv by (simp add: analyze_Some_iff)

lemma alert_needs_entry:
  assumes "summary_inv cfg a" "alert_triggered a"
  shows "hours_data a \<noteq> []"
  using assms by (auto simp: summary_inv_def)

lemma main_notified:
  assumes "s \<in> set (notified (main cfg rt w))"
  shows "\<exists>data. analyze_rain_probability cfg rt (index_clock w) (check_clock w) data DEFAULT_CITY
                  = Some s \<and> alert_triggered s"
  using assms
  by (auto simp: main_def split: prod.splits sum.splits option.splits if_splits)

lemma max_reaches_threshold:
  assumes inv: "summary_inv cfg a" and pos: "0 < RAIN_THRESHOLD cfg"
  shows "of_int (RAIN_THRESHOLD cfg) \<le> num_val (max_probability a) \<longleftrightarrow>
           (\<exists>h \<in> set (hours_data a). of_int (RAIN_THRESHOLD cfg) \<le> prob_val h)"
proof -
  let ?S = "insert 0 (prob_val ` set (hours_data a))"
  let ?t = "of_int (RAIN_THRESHOLD cfg) :: rat"
  have fin: "finite ?S" "?S \<noteq> {}" by simp_all
  have m: "num_val (max_probability a) = Max ?S" using inv by (simp add: summary_inv_def)
  have "?t \<le> Max ?S \<longleftrightarrow> (\<exists>x \<in> ?S. ?t \<le> x)" using fin by (rule Max_ge_iff)
  also have "\<dots> \<longleftrightarrow> (\<exists>h \<in> set (hours_data a). ?t \<le> prob_val h)"
    using pos by auto
  finally show ?thesis using m by simp
qed

section \<open>The alert flag\<close>

text \<open>
  C10. In every summary that \<open>analyze_rain_probability\<close> returns, a set alert flag
  implies that the list of hour-detail entries is not empty; so the notifier, which
  \<open>main\<close> calls only with a summary whose alert flag is set, is never given a summary
  without entries.
\<close>

theorem alert_implies_entries:
  "(analyze_rain_probability cfg rt now check data city_key = Some a \<longrightarrow>
      alert_triggered a \<longrightarrow> hours_data a \<noteq> [])
   \<and> (\<forall>s \<in> set (notified (main cfg rt w)). hours_data s \<noteq> [])"
proof (intro conjI impI ballI)
  assume "analyze_rain_probability cfg rt now check data city_key = Some a" "alert_triggered a"
  then show "hours_data a \<noteq> []" using analyze_inv alert_needs_entry by blast
next
  fix s
  assume "s \<in> set (notified (main cfg rt w))"
  then obtain d where
    "analyze_rain_probability cfg rt (index_clock w) (check_clock w) d DEFAULT_CITY = Some s"
    "alert_triggered s"
    using main_notified by blast
  then show "hours_data s \<noteq> []" using analyze_inv alert_needs_entry by blast
qed

theorem alert_implies_entries_witness:
  "map_option alert_triggered
     (analyze_rain_probability source_config sample_runtime sample_now sample_now sample_data
        DEFAULT_CITY) = Some True \<and>
   map_option (\<lambda>a. hours_data a \<noteq> [])
     (analyze_rain_probability source_config sample_runtime sample_now sample_now sample_data
        DEFAULT_CITY) = Some True \<and>
   length (notified (main source_config sample_runtime sample_world)) = 1 \<and>
   hours_data (notified (main source_config sample_runtime sample_world) ! 0) \<noteq> []"
proof -
  have al: "map_option alert_triggered
     (analyze_rain_probability source_config sample_runtime sample_now sample_now sample_data
        DEFAULT_CITY) = Some True"
    by code_simp
  then obtain a where
    a: "analyze_rain_probability source_config sample_runtime sample_now sample_now sample_data
          DEFAULT_CITY = Some a" "alert_triggered a"
    by auto
  have n: "length (notified (main source_config sample_runtime sample_world)) = 1"
    by code_simp
  then have mem: "notified (main source_config sample_runtime sample_world) ! 0
                    \<in> set (notified (main source_config sample_runtime sample_world))"
    by simp
  note T = alert_implies_entries[of source_config sample_runtime sample_now sample_now sample_data
      DEFAULT_CITY a sample_world]
  from T a have "hours_data a \<noteq> []" by blast
  with a have e: "map_option (\<lambda>a. hours_data a \<noteq> [])
     (analyze_rain_probability source_config sample_runtime sample_now sample_now sample_data
        DEFAULT_CITY) = Some True" by simp
  from T mem have "hours_data (notified (main source_config sample_runtime sample_world) ! 0) \<noteq> []"
    by blast
  with al e n show ?thesis by blast
qed

text \<open>
  C1, as stated, fails: with the test override on and a series without any hour in range,
  the summary has no entries and its alert flag is not set, although the claim makes the
  flag true whenever the override is active.
\<close>

theorem alert_flag_no_entries_counterexample:
  "TESTING_MODE testing_config \<and>
   analyze_rain_probability testing_config sample_runtime sample_now sample_now empty_series
     ''madison'' =
     Some \<lparr>city = ''Madison'', check_time = ''2026-11-04 02:30:15'', hours_data = [],
           max_probability = PInt 0, total_precipitation = PInt 0, alert_triggered = False\<rparr>"
  by code_simp

text \<open>
  C1, amended. For a positive threshold (the source's is 50), the alert flag of a returned
  summary is set if and only if the summary has at least one hour-detail entry and the
  maximum probability reaches the threshold or the test override is active. With no entry
  the flag is not set, whatever the override.
\<close>

theorem alert_flag:
  assumes "analyze_rain_probability cfg rt now check data city_key = Some a"
    and "0 < RAIN_THRESHOLD cfg"
  shows "alert_triggered a \<longleftrightarrow>
           hours_data a \<noteq> [] \<and>
           (of_int (RAIN_THRESHOLD cfg) \<le> num_val (max_probability a) \<or> TESTING_MODE cfg)"
proof -
  have inv: "summary_inv cfg a" using assms(1) by (rule analyze_inv)
  have "alert_triggered a \<longleftrightarrow>
        (\<exists>h \<in> set (hours_data a). of_int (RAIN_THRESHOLD cfg) \<le> prob_val h \<or> TESTING_MODE cfg)"
    using inv by (simp add: summary_inv_def)
  also have "\<dots> \<longleftrightarrow> (\<exists>h \<in> set (hours_data a). of_int (RAIN_THRESHOLD cfg) \<le> prob_val h)
                        \<or> (hours_data a \<noteq> [] \<and> TESTING_MODE cfg)"
    by (cases "hours_data a") auto
  also have "\<dots> \<longleftrightarrow> of_int (RAIN_THRESHOLD cfg) \<le> num_val (max_probability a)
                        \<or> (hours_data a \<noteq> [] \<and> TESTING_MODE cfg)"
    using max_reaches_threshold[OF inv assms(2)] by simp
  also have "\<dots> \<longleftrightarrow> hours_data a \<noteq> [] \<and>
           (of_int (RAIN_THRESHOLD cfg) \<le> num_val (max_probability a) \<or> TESTING_MODE cfg)"
    using max_reaches_threshold[OF inv assms(2)] by auto
  finally show ?thesis .
qed

theorem alert_flag_witness:
  "0 < RAIN_THRESHOLD source_config \<and>
   (\<exists>a. analyze_rain_probability source_config sample_runtime sample_now sample_now sample_data
          ''madison'' = Some a \<and>
        alert_triggered a \<and> hours_data a \<noteq> [] \<and>
        rat_of_int (RAIN_THRESHOLD source_config) \<le> num_val (max_probability a))"
proof -
  have t: "0 < RAIN_THRESHOLD source_config" by code_simp
  have "map_option (\<lambda>a. (alert_triggered a, num_val (max_probability a)))
     (analyze_rain_probability source_config sample_runtime sample_now sample_now sample_data
        ''madison'') = Some (True, 60)"
    by code_simp
  then obtain a where
    a: "analyze_rain_probability source_config sample_runtime sample_now sample_now sample_data
          ''madison'' = Some a" "alert_triggered a" "num_val (max_probability a) = 60"
    by auto
  have th: "RAIN_THRESHOLD source_config = 50" by code_simp
  from alert_flag[OF a(1) t] a(2) have "hours_data a \<noteq> []" by blast
  with a th t show ?thesis by auto
qed

section \<open>The maximum probability\<close>

text \<open>
  C5, as stated, fails: the running maximum starts at 0, so in a window of negative
  numbers (here - 1, - 2 and - 4) \<open>max_probability\<close> is 0, not the greatest of the
  included probabilities.
\<close>

theorem max_probability_counterexample:
  "analyze_rain_probability source_config sample_runtime sample_now sample_now negative_series
     ''madison'' =
     Some \<lparr>city = ''Madison'', check_time = ''2026-11-04 02:30:15'',
           hours_data =
             [\<lparr>time = JStr ''2026-11-04T02:00'', probability = JNum (PInt (- 1)),
               precipitation = JNum (PInt 2)\<rparr>,
              \<lparr>time = JStr ''2026-11-04T03:00'', probability = JNum (PInt (- 2)),
               precipitation = JNum (PInt 1)\<rparr>,
              \<lparr>time = JStr ''2026-11-04T04:00'', probability = JNum (PInt (- 4)),
               precipitation = JNum (PInt 0)\<rparr>],
           max_probability = PInt 0, total_precipitation = PInt 3, alert_triggered = False\<rparr>"
  by code_simp

text \<open>
  C5, amended. In every returned summary \<open>max_probability\<close> has the value of the
  greatest among 0 and the probabilities of the included hour-detail entries: the
  greatest included probability when one of them is not negative, and 0 when no entry is
  included.
\<close>

theorem max_probability_value:
  assumes "analyze_rain_probability cfg rt now check data city_key = Some a"
  shows "num_val (max_probability a) = Max (insert 0 (prob_val ` set (hours_data a)))"
  using analyze_inv[OF assms] by (simp add: summary_inv_def)

theorem max_probability_value_witness:
  "analyze_rain_probability source_config sample_runtime sample_now sample_now sample_data
     ''madison'' = Some sample_summary \<and>
   num_val (max_probability sample_summary)
     = Max (insert 0 (prob_val ` set (hours_data sample_summary))) \<and>
   max_probability sample_summary = PInt 60"
proof -
  have a: "analyze_rain_probability source_config sample_runtime sample_now sample_now sample_data
     ''madison'' = Some sample_summary"
    by code_simp
  have m: "max_probability sample_summary = PInt 60" by code_simp
  from max_probability_value[OF a] a m show ?thesis by blast
qed

section \<open>The total precipitation\<close>

text \<open>
  The total is the running sum of the loop, \<open>0 + a0 + a1 + a2\<close> with Python's \<open>+\<close>.
  When the included amounts are ints the additions are exact and the total is their sum;
  with a float amount each addition rounds as \<open>float_add\<close> does, which this theory
  leaves open.
\<close>

lemma total_ints_step:
  assumes inv: "list_all int_amount (hours_data a) \<longrightarrow>
                 total_precipitation a = PInt (sum_list (map amount_int (hours_data a)))"
    and step: "analyze_hour cfg rt tms probabilities precipitations current_index a i = Inr a'"
  shows "list_all int_amount (hours_data a') \<longrightarrow>
           total_precipitation a' = PInt (sum_list (map amount_int (hours_data a')))"
  using step
proof (cases rule: analyze_hour_cases)
  case (skip n)
  with inv show ?thesis by simp
next
  case (take n t pn qn tp)
  let ?h = "\<lparr>time = t, probability = JNum pn, precipitation = JNum qn\<rparr>"
  have hs: "hours_data a' = hours_data a @ [?h]" and tp: "total_precipitation a' = tp"
    using take(6) by simp_all
  show ?thesis
  proof
    assume "list_all int_amount (hours_data a')"
    with hs have old: "list_all int_amount (hours_data a)" and h: "int_amount ?h" by simp_all
    from inv old have t0: "total_precipitation a = PInt (sum_list (map amount_int (hours_data a)))"
      by blast
    from h have nf: "\<not> is_float qn" by (cases qn) (simp_all add: int_amount_def)
    from take(7) t0 nf have "tp = PInt (sum_list (map amount_int (hours_data a)) + int_val qn)"
      by (simp add: num_add_def)
    then show "total_precipitation a' = PInt (sum_list (map amount_int (hours_data a')))"
      using hs tp by (simp add: amount_int_def)
  qed
qed

lemma total_ints_loop:
  assumes "list_all int_amount (hours_data a) \<longrightarrow>
                 total_precipitation a = PInt (sum_list (map amount_int (hours_data a)))"
    and "analyze_loop cfg rt tms probabilities precipitations current_index idxs a = Inr a'"
  shows "list_all int_amount (hours_data a') \<longrightarrow>
           total_precipitation a' = PInt (sum_list (map amount_int (hours_data a')))"
  using assms
proof (induction idxs arbitrary: a)
  case Nil
  then show ?case by simp
next
  case (Cons i idxs)
  from Cons.prems(2) obtain b where
    b: "analyze_hour cfg rt tms probabilities precipitations current_index a i = Inr b"
    and rest: "analyze_loop cfg rt tms probabilities precipitations current_index idxs b = Inr a'"
    by (auto simp: andthen_Inr_iff)
  from Cons.prems(1) b have "list_all int_amount (hours_data b) \<longrightarrow>
           total_precipitation b = PInt (sum_list (map amount_int (hours_data b)))"
    by (rule total_ints_step)
  then show ?case using rest by (rule Cons.IH)
qed

lemma total_precipitation_ints:
  assumes "analyze_rain_probability cfg rt now check data city_key = Some a"
    and "list_all int_amount (hours_data a)"
  shows "total_precipitation a = PInt (sum_list (map amount_int (hours_data a)))"
proof -
  from assms(1) have "analyze_from cfg rt check data city_key (get_current_hour_index now data) = Inr a"
    by (simp add: analyze_Some_iff)
  then obtain tms probabilities precipitations where
    "analyze_loop cfg rt tms probabilities precipitations (get_current_hour_index now data) [0, 1, 2]
         \<lparr>city = city_name_of city_key, check_time = strftime_check check, hours_data = [],
          max_probability = PInt 0, total_precipitation = PInt 0, alert_triggered = False\<rparr> = Inr a"
    by (auto simp: analyze_from_def andthen_Inr_iff simp del: analyze_loop.simps)
  from total_ints_loop[OF _ this] assms(2) show ?thesis by simp
qed

section \<open>Errors during the analysis\<close>

lemma analyze_raises_None:
  assumes "analyze_rain_probability_try cfg rt now check data city_key = Inl e"
  shows "analyze_rain_probability cfg rt now check data city_key = None"
  using assms by (simp add: analyze_rain_probability_def)

lemma main_no_analysis:
  assumes "fst (fetch_weather_data (http_at w) DEFAULT_CITY) = Inr data"
    and "analyze_rain_probability cfg rt (index_clock w) (check_clock w) data DEFAULT_CITY = None"
  shows "main cfg rt w =
           \<lparr>raised = None, logged = [log_started, log_no_analysis], notified = [], sent = [],
            slept = snd (fetch_weather_data (http_at w) DEFAULT_CITY)\<rparr>"
  using assms by (cases "fetch_weather_data (http_at w) DEFAULT_CITY") (simp add: main_def)

text \<open>
  C7. Whenever the body of the analysis raises, \<open>analyze_rain_probability\<close> returns
  \<open>None\<close> (never a summary, however many hours had been recorded before the error);
  and when the analysis of the fetched data raises, \<open>main\<close> logs the error
  \<open>Failed to analyze weather data\<close> and returns: no exception leaves it, the exit status
  is 0, the notifier is not called and nothing is sent.
\<close>

theorem analysis_error_gives_null:
  "(analyze_rain_probability_try cfg rt now check data city_key = Inl e \<longrightarrow>
      analyze_rain_probability cfg rt now check data city_key = None)
   \<and> (fst (fetch_weather_data (http_at w) DEFAULT_CITY) = Inr body \<and>
       analyze_rain_probability_try cfg rt (index_clock w) (check_clock w) body DEFAULT_CITY = Inl e'
       \<longrightarrow> raised (main cfg rt w) = None \<and> exit_status (main cfg rt w) = 0 \<and>
           notified (main cfg rt w) = [] \<and> sent (main cfg rt w) = [] \<and>
           logged (main cfg rt w) =
             [(INFO, ''=== Rain Monitoring Check Started ===''),
              (ERROR, ''Failed to analyze weather data'')])"
proof (intro conjI impI)
  assume "analyze_rain_probability_try cfg rt now check data city_key = Inl e"
  then show "analyze_rain_probability cfg rt now check data city_key = None"
    by (rule analyze_raises_None)
next
  assume "fst (fetch_weather_data (http_at w) DEFAULT_CITY) = Inr body \<and>
       analyze_rain_probability_try cfg rt (index_clock w) (check_clock w) body DEFAULT_CITY = Inl e'"
  then have m: "main cfg rt w =
           \<lparr>raised = None, logged = [log_started, log_no_analysis], notified = [], sent = [],
            slept = snd (fetch_weather_data (http_at w) DEFAULT_CITY)\<rparr>"
    using main_no_analysis analyze_raises_None by blast
  show "raised (main cfg rt w) = None" by (simp add: m)
  show "exit_status (main cfg rt w) = 0" by (simp add: m exit_status_def)
  show "notified (main cfg rt w) = []" by (simp add: m)
  show "sent (main cfg rt w) = []" by (simp add: m)
  show "logged (main cfg rt w) =
             [(INFO, ''=== Rain Monitoring Check Started ===''),
              (ERROR, ''Failed to analyze weather data'')]"
    by (simp add: m log_started_def log_no_analysis_def)
qed

theorem analysis_error_gives_null_witness:
  "analyze_rain_probability_try source_config sample_runtime sample_now sample_now null_hour_data
     DEFAULT_CITY = Inl TypeError \<and>
   fst (fetch_weather_data (http_at null_hour_world) DEFAULT_CITY) = Inr null_hour_data \<and>
   analyze_rain_probability source_config sample_runtime sample_now sample_now null_hour_data
     DEFAULT_CITY = None \<and>
   raised (main source_config sample_runtime null_hour_world) = None \<and>
   exit_status (main source_config sample_runtime null_hour_world) = 0 \<and>
   sent (main source_config sample_runtime null_hour_world) = [] \<and>
   logged (main source_config sample_runtime null_hour_world) =
     [(INFO, ''=== Rain Monitoring Check Started ===''),
      (ERROR, ''Failed to analyze weather data'')]"
proof -
  have e: "analyze_rain_probability_try source_config sample_runtime sample_now sample_now
             null_hour_data DEFAULT_CITY = Inl TypeError"
    by code_simp
  have f: "fst (fetch_weather_data (http_at null_hour_world) DEFAULT_CITY) = Inr null_hour_data"
    by code_simp
  have c: "index_clock null_hour_world = sample_now" "check_clock null_hour_world = sample_now"
    by code_simp+
  note T = analysis_error_gives_null[of source_config sample_runtime sample_now sample_now
      null_hour_data DEFAULT_CITY TypeError null_hour_world null_hour_data TypeError]
  from T e f c show ?thesis by simp
qed

section \<open>The current-hour index\<close>

lemma length_pad: "w \<le> length (pad w n)"
  by (simp add: pad_def)

lemma length_strftime_hour: "13 \<le> length (strftime_hour t)"
  using length_pad[of 4 "year t"] length_pad[of 2 "month t"] length_pad[of 2 "day t"]
    length_pad[of 2 "hour t"]
  by (simp add: strftime_hour_def)

lemma startswith_hour:
  "startswith time_str (take 13 (strftime_hour current_time)) \<longleftrightarrow>
     hour_matches current_time time_str"
  using length_strftime_hour[of current_time]
  by (simp add: startswith_def hour_matches_def min_def)

lemma scan_times_match:
  assumes "i < length ts" "startswith (ts ! i) p" "\<forall>j < i. \<not> startswith (ts ! j) p"
  shows "scan_times p current_hour i0 (map JStr ts) = Inr (i0 + i)"
  using assms
proof (induction ts arbitrary: i i0)
  case Nil
  then show ?case by simp
next
  case (Cons t ts)
  show ?case
  proof (cases i)
    case 0
    with Cons.prems show ?thesis by simp
  next
    case (Suc i')
    with Cons.prems have "\<not> startswith t p" by auto
    moreover have "scan_times p current_hour (Suc i0) (map JStr ts) = Inr (Suc i0 + i')"
    proof (rule Cons.IH)
      show "i' < length ts" using Cons.prems(1) Suc by simp
      show "startswith (ts ! i') p" using Cons.prems(2) Suc by simp
      show "\<forall>j < i'. \<not> startswith (ts ! j) p"
      proof (intro allI impI)
        fix j assume "j < i'"
        then have "Suc j < i" using Suc by simp
        with Cons.prems(3) have "\<not> startswith ((t # ts) ! Suc j) p" by blast
        then show "\<not> startswith (ts ! j) p" by simp
      qed
    qed
    ultimately show ?thesis using Suc by simp
  qed
qed

lemma scan_times_no_match:
  assumes "\<forall>t \<in> set ts. \<not> startswith t p"
  shows "scan_times p current_hour i0 (map JStr ts) = Inr current_hour"
  using assms by (induction ts arbitrary: i0) simp_all

lemma get_current_hour_index_try_strings:
  assumes "py_getitem data ''hourly'' = Inr hourly"
    and "py_getitem hourly ''time'' = Inr (JList (map JStr ts))"
  shows "get_current_hour_index_try current_time data =
           scan_times (take 13 (strftime_hour current_time)) (hour current_time) 0 (map JStr ts)"
  using assms by (simp add: get_current_hour_index_try_def py_iter_def)

text \<open>
  C4. For a series whose timestamps are strs, \<open>get_current_hour_index\<close> returns the
  index of the first timestamp that matches the current hour; when none matches it
  returns the current hour of the day; and whenever the lookup raises it returns 0.
\<close>

theorem current_hour_index:
  "(py_getitem data ''hourly'' = Inr hourly \<and>
    py_getitem hourly ''time'' = Inr (JList (map JStr ts)) \<longrightarrow>
      (\<forall>i. i < length ts \<and> hour_matches current_time (ts ! i) \<and>
            (\<forall>j < i. \<not> hour_matches current_time (ts ! j)) \<longrightarrow>
            get_current_hour_index current_time data = i) \<and>
      ((\<forall>t \<in> set ts. \<not> hour_matches current_time t) \<longrightarrow>
         get_current_hour_index current_time data = hour current_time))
   \<and> (get_current_hour_index_try current_time data = Inl e \<longrightarrow>
        get_current_hour_index current_time data = 0)"
proof (intro conjI impI allI)
  assume s: "py_getitem data ''hourly'' = Inr hourly \<and>
    py_getitem hourly ''time'' = Inr (JList (map JStr ts))"
  then have t: "get_current_hour_index_try current_time data =
           scan_times (take 13 (strftime_hour current_time)) (hour current_time) 0 (map JStr ts)"
    using get_current_hour_index_try_strings by blast
  {
    fix i
    assume "i < length ts \<and> hour_matches current_time (ts ! i) \<and>
            (\<forall>j < i. \<not> hour_matches current_time (ts ! j))"
    then have "scan_times (take 13 (strftime_hour current_time)) (hour current_time) 0 (map JStr ts)
                 = Inr (0 + i)"
      by (intro scan_times_match) (simp_all add: startswith_hour)
    with t show "get_current_hour_index current_time data = i"
      by (simp add: get_current_hour_index_def)
  }
  {
    assume "\<forall>t \<in> set ts. \<not> hour_matches current_time t"
    then have "scan_times (take 13 (strftime_hour current_time)) (hour current_time) 0 (map JStr ts)
                 = Inr (hour current_time)"
      by (intro scan_times_no_match) (simp add: startswith_hour)
    with t show "get_current_hour_index current_time data = hour current_time"
      by (simp add: get_current_hour_index_def)
  }
next
  assume "get_current_hour_index_try current_time data = Inl e"
  then show "get_current_hour_index current_time data = 0"
    by (simp add: get_current_hour_index_def)
qed

theorem current_hour_index_witness:
  "py_getitem sample_data ''hourly'' = Inr sample_hourly \<and>
   py_getitem sample_hourly ''time'' = Inr (JList (map JStr sample_time_strs)) \<and>
   hour_matches sample_now (sample_time_strs ! 2) \<and>
   \<not> hour_matches sample_now (sample_time_strs ! 0) \<and>
   \<not> hour_matches sample_now (sample_time_strs ! 1) \<and>
   get_current_hour_index sample_now sample_data = 2 \<and>
   list_all (\<lambda>t. \<not> hour_matches other_day t) sample_time_strs \<and>
   get_current_hour_index other_day sample_data = 14 \<and>
   get_current_hour_index_try sample_now (JDict []) = Inl KeyError \<and>
   get_current_hour_index sample_now (JDict []) = 0"
proof -
  have h1: "py_getitem sample_data ''hourly'' = Inr sample_hourly" by code_simp
  have h2: "py_getitem sample_hourly ''time'' = Inr (JList (map JStr sample_time_strs))"
    by code_simp
  have len: "2 < length sample_time_strs" by code_simp
  have m2: "hour_matches sample_now (sample_time_strs ! 2)" by code_simp
  have m0: "\<not> hour_matches sample_now (sample_time_strs ! 0)" by code_simp
  have m1: "\<not> hour_matches sample_now (sample_time_strs ! 1)" by code_simp
  have before: "\<forall>j < 2. \<not> hour_matches sample_now (sample_time_strs ! j)"
  proof (intro allI impI)
    fix j :: nat
    assume "j < 2"
    then consider "j = 0" | "j = 1" by linarith
    then show "\<not> hour_matches sample_now (sample_time_strs ! j)" using m0 m1 by cases simp_all
  qed
  have none: "list_all (\<lambda>t. \<not> hour_matches other_day t) sample_time_strs" by code_simp
  have hr: "hour other_day = 14" by code_simp
  have r: "get_current_hour_index_try sample_now (JDict []) = Inl KeyError" by code_simp
  have none': "\<forall>t \<in> set sample_time_strs. \<not> hour_matches other_day t"
    using none by (simp only: list_all_iff)
  note A = current_hour_index[of sample_data sample_hourly sample_time_strs sample_now,
      THEN conjunct1, THEN mp, OF conjI[OF h1 h2]]
  note B = current_hour_index[of sample_data sample_hourly sample_time_strs other_day,
      THEN conjunct1, THEN mp, OF conjI[OF h1 h2]]
  note C = current_hour_index[of "JDict []" _ _ sample_now KeyError, THEN conjunct2, THEN mp, OF r]
  have i2: "get_current_hour_index sample_now sample_data = 2"
    by (rule A[THEN conjunct1, rule_format, OF conjI[OF len conjI[OF m2 before]]])
  have "get_current_hour_index other_day sample_data = hour other_day"
    by (rule B[THEN conjunct2, THEN mp, OF none'])
  then have i14: "get_current_hour_index other_day sample_data = 14"
    by (simp only: hr)
  note i0 = C
  show ?thesis
    by (rule conjI[OF h1 conjI[OF h2 conjI[OF m2 conjI[OF m0 conjI[OF m1 conjI[OF i2
          conjI[OF none conjI[OF i14 conjI[OF r i0]]]]]]]]])
qed

section \<open>The retry policy\<close>

lemma retry_succeeds_from:
  assumes "k0 \<le> k" "k \<le> stop" "attempt k = Inr v" "\<forall>j. k0 \<le> j \<and> j < k \<longrightarrow> isl (attempt j)"
  shows "retry stop wait attempt k0 = (Inr v, replicate (k - k0) wait)"
  using assms(1,4)
proof (induction "k - k0" arbitrary: k0)
  case 0
  then have "k0 = k" by simp
  with assms(3) show ?case by (simp add: retry.simps[of stop wait attempt k])
next
  case (Suc d)
  then have lt: "k0 < k" by simp
  with Suc.prems(2) have "isl (attempt k0)" by simp
  then obtain e where e: "attempt k0 = Inl e" by (cases "attempt k0") auto
  from lt assms(2) have ns: "\<not> stop \<le> k0" by simp
  have "retry stop wait attempt (Suc k0) = (Inr v, replicate (k - Suc k0) wait)"
  proof (rule Suc.hyps(1))
    show "d = k - Suc k0" using Suc.hyps(2) by simp
    show "Suc k0 \<le> k" using lt by simp
    show "\<forall>j. Suc k0 \<le> j \<and> j < k \<longrightarrow> isl (attempt j)" using Suc.prems(2) by simp
  qed
  moreover have "k - k0 = Suc (k - Suc k0)" using lt by simp
  ultimately show ?case using e ns by (simp add: retry.simps[of stop wait attempt k0])
qed

lemma retry_exhausted_from:
  assumes "k0 \<le> stop" "\<forall>j. k0 \<le> j \<and> j \<le> stop \<longrightarrow> isl (attempt j)" "attempt stop = Inl e"
  shows "retry stop wait attempt k0 = (Inl (RetryError e), replicate (stop - k0) wait)"
  using assms(1,2)
proof (induction "stop - k0" arbitrary: k0)
  case 0
  then have "k0 = stop" by simp
  with assms(3) show ?case by (simp add: retry.simps[of stop wait attempt stop])
next
  case (Suc d)
  then have lt: "k0 < stop" by simp
  with Suc.prems(2) have "isl (attempt k0)" by simp
  then obtain e0 where e0: "attempt k0 = Inl e0" by (cases "attempt k0") auto
  from lt have ns: "\<not> stop \<le> k0" by simp
  have "retry stop wait attempt (Suc k0) = (Inl (RetryError e), replicate (stop - Suc k0) wait)"
  proof (rule Suc.hyps(1))
    show "d = stop - Suc k0" using Suc.hyps(2) by simp
    show "Suc k0 \<le> stop" using lt by simp
    show "\<forall>j. Suc k0 \<le> j \<and> j \<le> stop \<longrightarrow> isl (attempt j)" using Suc.prems(2) by simp
  qed
  moreover have "stop - k0 = Suc (stop - Suc k0)" using lt by simp
  ultimately show ?case using e0 ns by (simp add: retry.simps[of stop wait attempt k0])
qed

lemma retry_first_success:
  assumes "first_success attempt k v" "k \<le> stop"
  shows "retry stop wait attempt 1 = (Inr v, replicate (k - 1) wait)"
proof (rule retry_succeeds_from)
  show "1 \<le> k" "attempt k = Inr v" using assms(1) by (simp_all add: first_success_def)
  show "k \<le> stop" by (rule assms(2))
  show "\<forall>j. 1 \<le> j \<and> j < k \<longrightarrow> isl (attempt j)"
    using assms(1) by (simp add: first_success_def list_all_iff)
qed

lemma retry_all_fail:
  assumes "all_fail attempt stop" "attempt stop = Inl e" "1 \<le> stop"
  shows "retry stop wait attempt 1 = (Inl (RetryError e), replicate (stop - 1) wait)"
proof (rule retry_exhausted_from)
  show "1 \<le> stop" by (rule assms(3))
  show "attempt stop = Inl e" by (rule assms(2))
  show "\<forall>j. 1 \<le> j \<and> j \<le> stop \<longrightarrow> isl (attempt j)"
    using assms(1) assms(3) by (auto simp: all_fail_def list_all_iff)
qed

lemma fetch_first_success:
  assumes "first_success (\<lambda>k. fetch_weather_data_try (http k) city_key) k body" "k \<le> 15"
  shows "fetch_weather_data http city_key = (Inr body, replicate (k - 1) 15)"
  using retry_first_success[OF assms(1), of 15 15] assms(2)
  by (simp add: fetch_weather_data_def stop_after_attempt_def wait_fixed_def)

lemma fetch_all_fail:
  assumes "all_fail (\<lambda>k. fetch_weather_data_try (http k) city_key) 15"
    and "fetch_weather_data_try (http 15) city_key = Inl e"
  shows "fetch_weather_data http city_key = (Inl (RetryError e), replicate 14 15)"
  using retry_all_fail[of "\<lambda>k. fetch_weather_data_try (http k) city_key" 15 e 15] assms
  by (simp add: fetch_weather_data_def stop_after_attempt_def wait_fixed_def)

lemma send_first_success:
  assumes "first_success (\<lambda>k. send_rain_alert_email_try cfg rt (smtp k) a) m msg" "m \<le> 15"
  shows "send_rain_alert_email cfg rt smtp a = (Inr msg, replicate (m - 1) 15)"
  using retry_first_success[OF assms(1), of 15 15] assms(2)
  by (simp add: send_rain_alert_email_def stop_after_attempt_def wait_fixed_def)

lemma send_all_fail:
  assumes "all_fail (\<lambda>k. send_rain_alert_email_try cfg rt (smtp k) a) 15"
    and "send_rain_alert_email_try cfg rt (smtp 15) a = Inl e"
  shows "send_rain_alert_email cfg rt smtp a = (Inl (RetryError e), replicate 14 15)"
  using retry_all_fail[of "\<lambda>k. send_rain_alert_email_try cfg rt (smtp k) a" 15 e 15] assms
  by (simp add: send_rain_alert_email_def stop_after_attempt_def wait_fixed_def)

lemma main_fetch_raises:
  assumes "fetch_weather_data (http_at w) DEFAULT_CITY = (Inl e, naps)"
  shows "main cfg rt w =
           \<lparr>raised = Some e, logged = [log_started, log_failed], notified = [], sent = [],
            slept = naps\<rparr>"
  using assms by (simp add: main_def)

lemma main_no_alert:
  assumes "fetch_weather_data (http_at w) DEFAULT_CITY = (Inr body, naps)"
    and "analyze_rain_probability cfg rt (index_clock w) (check_clock w) body DEFAULT_CITY = Some a"
    and "\<not> alert_triggered a"
  shows "raised (main cfg rt w) = None \<and> notified (main cfg rt w) = [] \<and>
         sent (main cfg rt w) = [] \<and> slept (main cfg rt w) = naps"
proof -
  from analyze_shows_max[OF assms(2)] obtain m where "str_num rt (max_probability a) = Inr m" ..
  then have "\<exists>l. log_no_alert cfg rt a = Inr l" by (simp add: log_no_alert_def)
  then obtain l where "log_no_alert cfg rt a = Inr l" ..
  with assms show ?thesis by (simp add: main_def)
qed

lemma main_send_raises:
  assumes "fetch_weather_data (http_at w) DEFAULT_CITY = (Inr body, naps)"
    and "analyze_rain_probability cfg rt (index_clock w) (check_clock w) body DEFAULT_CITY = Some a"
    and "alert_triggered a"
    and "send_rain_alert_email cfg rt (smtp_at w) a = (Inl e, naps')"
  shows "raised (main cfg rt w) = Some e \<and> notified (main cfg rt w) = [a] \<and>
         sent (main cfg rt w) = [] \<and> slept (main cfg rt w) = naps @ naps'"
proof -
  from analyze_shows_max[OF assms(2)] obtain m where "str_num rt (max_probability a) = Inr m" ..
  then have "\<exists>l. log_alert cfg rt a = Inr l" by (simp add: log_alert_def)
  then obtain l where "log_alert cfg rt a = Inr l" ..
  with assms show ?thesis by (simp add: main_def)
qed

lemma main_sends:
  assumes "fetch_weather_data (http_at w) DEFAULT_CITY = (Inr body, naps)"
    and "analyze_rain_probability cfg rt (index_clock w) (check_clock w) body DEFAULT_CITY = Some a"
    and "alert_triggered a"
    and "send_rain_alert_email cfg rt (smtp_at w) a = (Inr msg, naps')"
  shows "raised (main cfg rt w) = None \<and> notified (main cfg rt w) = [a] \<and>
         sent (main cfg rt w) = [msg] \<and> slept (main cfg rt w) = naps @ naps'"
proof -
  from analyze_shows_max[OF assms(2)] obtain m where "str_num rt (max_probability a) = Inr m" ..
  then have "\<exists>l. log_alert cfg rt a = Inr l" by (simp add: log_alert_def)
  then obtain l where "log_alert cfg rt a = Inr l" ..
  with assms show ?thesis by (simp add: main_def)
qed

text \<open>
  C8. The fetch and the send make up to 15 attempts with a sleep of 15 between
  consecutive attempts, whatever the exception. When attempt \<open>k \<le> 15\<close> is the first to
  succeed, the operation returns that attempt's result after \<open>k - 1\<close> sleeps; the run
  then goes on and ends normally (exit status 0) when no alert is due or the send
  succeeds within its own 15 attempts. When all 15 attempts fail, the operation raises
  \<open>RetryError\<close> carrying the exception of the 15th attempt after 14 sleeps, the
  exception leaves \<open>main\<close> and the exit status is 1.
\<close>

theorem retry_policy:
  "(first_success (\<lambda>k. fetch_weather_data_try (http k) city_key) k body \<and> k \<le> 15 \<longrightarrow>
      fetch_weather_data http city_key = (Inr body, replicate (k - 1) 15))
   \<and> (all_fail (\<lambda>k. fetch_weather_data_try (http k) city_key) 15 \<and>
       fetch_weather_data_try (http 15) city_key = Inl e \<longrightarrow>
      fetch_weather_data http city_key = (Inl (RetryError e), replicate 14 15))
   \<and> (first_success (\<lambda>k. send_rain_alert_email_try cfg rt (smtp k) a) m msg \<and> m \<le> 15 \<longrightarrow>
      send_rain_alert_email cfg rt smtp a = (Inr msg, replicate (m - 1) 15))
   \<and> (all_fail (\<lambda>k. send_rain_alert_email_try cfg rt (smtp k) a) 15 \<and>
       send_rain_alert_email_try cfg rt (smtp 15) a = Inl e' \<longrightarrow>
      send_rain_alert_email cfg rt smtp a = (Inl (RetryError e'), replicate 14 15))
   \<and> (all_fail (\<lambda>k. fetch_weather_data_try (http_at w k) DEFAULT_CITY) 15 \<and>
       fetch_weather_data_try (http_at w 15) DEFAULT_CITY = Inl e \<longrightarrow>
      raised (main cfg rt w) = Some (RetryError e) \<and> exit_status (main cfg rt w) = 1 \<and>
      sent (main cfg rt w) = [])
   \<and> (first_success (\<lambda>k. fetch_weather_data_try (http_at w k) DEFAULT_CITY) k body \<and> k \<le> 15 \<and>
       analyze_rain_probability cfg rt (index_clock w) (check_clock w) body DEFAULT_CITY = Some a \<and>
       alert_triggered a \<and>
       all_fail (\<lambda>k. send_rain_alert_email_try cfg rt (smtp_at w k) a) 15 \<and>
       send_rain_alert_email_try cfg rt (smtp_at w 15) a = Inl e' \<longrightarrow>
      raised (main cfg rt w) = Some (RetryError e') \<and> exit_status (main cfg rt w) = 1 \<and>
      sent (main cfg rt w) = [])
   \<and> (first_success (\<lambda>k. fetch_weather_data_try (http_at w k) DEFAULT_CITY) k body \<and> k \<le> 15 \<and>
       analyze_rain_probability cfg rt (index_clock w) (check_clock w) body DEFAULT_CITY = Some a \<and>
       alert_triggered a \<and>
       first_success (\<lambda>k. send_rain_alert_email_try cfg rt (smtp_at w k) a) m msg \<and> m \<le> 15 \<longrightarrow>
      raised (main cfg rt w) = None \<and> exit_status (main cfg rt w) = 0 \<and>
      sent (main cfg rt w) = [msg] \<and>
      slept (main cfg rt w) = replicate (k - 1) 15 @ replicate (m - 1) 15)
   \<and> (first_success (\<lambda>k. fetch_weather_data_try (http_at w k) DEFAULT_CITY) k body \<and> k \<le> 15 \<and>
       analyze_rain_probability cfg rt (index_clock w) (check_clock w) body DEFAULT_CITY = Some a \<and>
       \<not> alert_triggered a \<longrightarrow>
      raised (main cfg rt w) = None \<and> exit_status (main cfg rt w) = 0 \<and>
      sent (main cfg rt w) = [] \<and> slept (main cfg rt w) = replicate (k - 1) 15)"
proof -
  have c1: "first_success (\<lambda>k. fetch_weather_data_try (http k) city_key) k body \<and> k \<le> 15 \<longrightarrow>
      fetch_weather_data http city_key = (Inr body, replicate (k - 1) 15)"
    using fetch_first_success by blast
  have c2: "all_fail (\<lambda>k. fetch_weather_data_try (http k) city_key) 15 \<and>
       fetch_weather_data_try (http 15) city_key = Inl e \<longrightarrow>
      fetch_weather_data http city_key = (Inl (RetryError e), replicate 14 15)"
    using fetch_all_fail by blast
  have c3: "first_success (\<lambda>k. send_rain_alert_email_try cfg rt (smtp k) a) m msg \<and> m \<le> 15 \<longrightarrow>
      send_rain_alert_email cfg rt smtp a = (Inr msg, replicate (m - 1) 15)"
    using send_first_success by blast
  have c4: "all_fail (\<lambda>k. send_rain_alert_email_try cfg rt (smtp k) a) 15 \<and>
       send_rain_alert_email_try cfg rt (smtp 15) a = Inl e' \<longrightarrow>
      send_rain_alert_email cfg rt smtp a = (Inl (RetryError e'), replicate 14 15)"
    using send_all_fail by blast
  have c5: "all_fail (\<lambda>k. fetch_weather_data_try (http_at w k) DEFAULT_CITY) 15 \<and>
       fetch_weather_data_try (http_at w 15) DEFAULT_CITY = Inl e \<longrightarrow>
      raised (main cfg rt w) = Some (RetryError e) \<and> exit_status (main cfg rt w) = 1 \<and>
      sent (main cfg rt w) = []"
  proof
    assume "all_fail (\<lambda>k. fetch_weather_data_try (http_at w k) DEFAULT_CITY) 15 \<and>
       fetch_weather_data_try (http_at w 15) DEFAULT_CITY = Inl e"
    then have "fetch_weather_data (http_at w) DEFAULT_CITY = (Inl (RetryError e), replicate 14 15)"
      using fetch_all_fail by blast
    then show "raised (main cfg rt w) = Some (RetryError e) \<and> exit_status (main cfg rt w) = 1 \<and>
      sent (main cfg rt w) = []"
      by (simp add: main_fetch_raises exit_status_def)
  qed
  have c6: "first_success (\<lambda>k. fetch_weather_data_try (http_at w k) DEFAULT_CITY) k body \<and> k \<le> 15 \<and>
       analyze_rain_probability cfg rt (index_clock w) (check_clock w) body DEFAULT_CITY = Some a \<and>
       alert_triggered a \<and>
       all_fail (\<lambda>k. send_rain_alert_email_try cfg rt (smtp_at w k) a) 15 \<and>
       send_rain_alert_email_try cfg rt (smtp_at w 15) a = Inl e' \<longrightarrow>
      raised (main cfg rt w) = Some (RetryError e') \<and> exit_status (main cfg rt w) = 1 \<and>
      sent (main cfg rt w) = []"
  proof
    assume h: "first_success (\<lambda>k. fetch_weather_data_try (http_at w k) DEFAULT_CITY) k body \<and> k \<le> 15 \<and>
       analyze_rain_probability cfg rt (index_clock w) (check_clock w) body DEFAULT_CITY = Some a \<and>
       alert_triggered a \<and>
       all_fail (\<lambda>k. send_rain_alert_email_try cfg rt (smtp_at w k) a) 15 \<and>
       send_rain_alert_email_try cfg rt (smtp_at w 15) a = Inl e'"
    then have f: "fetch_weather_data (http_at w) DEFAULT_CITY = (Inr body, replicate (k - 1) 15)"
      using fetch_first_success by blast
    from h have s: "send_rain_alert_email cfg rt (smtp_at w) a
                      = (Inl (RetryError e'), replicate 14 15)"
      using send_all_fail by blast
    from h have "analyze_rain_probability cfg rt (index_clock w) (check_clock w) body DEFAULT_CITY
                   = Some a" "alert_triggered a" by blast+
    from main_send_raises[OF f this s]
    show "raised (main cfg rt w) = Some (RetryError e') \<and> exit_status (main cfg rt w) = 1 \<and>
      sent (main cfg rt w) = []"
      by (simp add: exit_status_def)
  qed
  have c7: "first_success (\<lambda>k. fetch_weather_data_try (http_at w k) DEFAULT_CITY) k body \<and> k \<le> 15 \<and>
       analyze_rain_probability cfg rt (index_clock w) (check_clock w) body DEFAULT_CITY = Some a \<and>
       alert_triggered a \<and>
       first_success (\<lambda>k. send_rain_alert_email_try cfg rt (smtp_at w k) a) m msg \<and> m \<le> 15 \<longrightarrow>
      raised (main cfg rt w) = None \<and> exit_status (main cfg rt w) = 0 \<and>
      sent (main cfg rt w) = [msg] \<and>
      slept (main cfg rt w) = replicate (k - 1) 15 @ replicate (m - 1) 15"
  proof
    assume h: "first_success (\<lambda>k. fetch_weather_data_try (http_at w k) DEFAULT_CITY) k body \<and> k \<le> 15 \<and>
       analyze_rain_probability cfg rt (index_clock w) (check_clock w) body DEFAULT_CITY = Some a \<and>
       alert_triggered a \<and>
       first_success (\<lambda>k. send_rain_alert_email_try cfg rt (smtp_at w k) a) m msg \<and> m \<le> 15"
    then have f: "fetch_weather_data (http_at w) DEFAULT_CITY = (Inr body, replicate (k - 1) 15)"
      using fetch_first_success by blast
    from h have s: "send_rain_alert_email cfg rt (smtp_at w) a = (Inr msg, replicate (m - 1) 15)"
      using send_first_success by blast
    from h have "analyze_rain_probability cfg rt (index_clock w) (check_clock w) body DEFAULT_CITY
                   = Some a" "alert_triggered a" by blast+
    from main_sends[OF f this s]
    show "raised (main cfg rt w) = None \<and> exit_status (main cfg rt w) = 0 \<and>
      sent (main cfg rt w) = [msg] \<and>
      slept (main cfg rt w) = replicate (k - 1) 15 @ replicate (m - 1) 15"
      by (simp add: exit_status_def)
  qed
  have c8: "first_success (\<lambda>k. fetch_weather_data_try (http_at w k) DEFAULT_CITY) k body \<and> k \<le> 15 \<and>
       analyze_rain_probability cfg rt (index_clock w) (check_clock w) body DEFAULT_CITY = Some a \<and>
       \<not> alert_triggered a \<longrightarrow>
      raised (main cfg rt w) = None \<and> exit_status (main cfg rt w) = 0 \<and>
      sent (main cfg rt w) = [] \<and> slept (main cfg rt w) = replicate (k - 1) 15"
  proof
    assume h: "first_success (\<lambda>k. fetch_weather_data_try (http_at w k) DEFAULT_CITY) k body \<and> k \<le> 15 \<and>
       analyze_rain_probability cfg rt (index_clock w) (check_clock w) body DEFAULT_CITY = Some a \<and>
       \<not> alert_triggered a"
    then have f: "fetch_weather_data (http_at w) DEFAULT_CITY = (Inr body, replicate (k - 1) 15)"
      using fetch_first_success by blast
    from h have "analyze_rain_probability cfg rt (index_clock w) (check_clock w) body DEFAULT_CITY
                   = Some a" "\<not> alert_triggered a" by blast+
    from main_no_alert[OF f this]
    show "raised (main cfg rt w) = None \<and> exit_status (main cfg rt w) = 0 \<and>
      sent (main cfg rt w) = [] \<and> slept (main cfg rt w) = replicate (k - 1) 15"
      by (simp add: exit_status_def)
  qed
  show ?thesis
    by (rule conjI[OF c1 conjI[OF c2 conjI[OF c3 conjI[OF c4 conjI[OF c5 conjI[OF c6
          conjI[OF c7 c8]]]]]]])
qed

theorem retry_policy_witness:
  "first_success (\<lambda>k. fetch_weather_data_try (http_at flaky_world k) DEFAULT_CITY) 15 sample_data \<and>
   fetch_weather_data (http_at flaky_world) DEFAULT_CITY = (Inr sample_data, replicate 14 15) \<and>
   first_success
     (\<lambda>k. send_rain_alert_email_try source_config sample_runtime (smtp_at flaky_world k)
            sample_summary) 3 sample_message \<and>
   raised (main source_config sample_runtime flaky_world) = None \<and>
   exit_status (main source_config sample_runtime flaky_world) = 0 \<and>
   sent (main source_config sample_runtime flaky_world) = [sample_message] \<and>
   slept (main source_config sample_runtime flaky_world) = replicate 14 15 @ replicate 2 15 \<and>
   all_fail (\<lambda>k. fetch_weather_data_try (http_at dead_world k) DEFAULT_CITY) 15 \<and>
   fetch_weather_data (http_at dead_world) DEFAULT_CITY
     = (Inl (RetryError RequestException), replicate 14 15) \<and>
   raised (main source_config sample_runtime dead_world) = Some (RetryError RequestException) \<and>
   exit_status (main source_config sample_runtime dead_world) = 1 \<and>
   all_fail
     (\<lambda>k. send_rain_alert_email_try source_config sample_runtime (smtp_at no_mail_world k)
            sample_summary) 15 \<and>
   send_rain_alert_email source_config sample_runtime (smtp_at no_mail_world) sample_summary
     = (Inl (RetryError SMTPError), replicate 14 15) \<and>
   raised (main source_config sample_runtime no_mail_world) = Some (RetryError SMTPError) \<and>
   exit_status (main source_config sample_runtime no_mail_world) = 1 \<and>
   \<not> alert_triggered quiet_summary \<and>
   raised (main source_config sample_runtime quiet_world) = None \<and>
   sent (main source_config sample_runtime quiet_world) = []"
proof -
  let ?cfg = source_config and ?rt = sample_runtime
  have fs1: "first_success (\<lambda>k. fetch_weather_data_try (http_at flaky_world k) DEFAULT_CITY) 15
               sample_data"
    by code_simp
  have an: "analyze_rain_probability ?cfg ?rt (index_clock flaky_world) (check_clock flaky_world)
              sample_data DEFAULT_CITY = Some sample_summary"
    by code_simp
  have al: "alert_triggered sample_summary" by code_simp
  have fs2: "first_success
     (\<lambda>k. send_rain_alert_email_try ?cfg ?rt (smtp_at flaky_world k) sample_summary) 3
     sample_message"
    by code_simp
  have le: "(15::nat) \<le> 15" "(3::nat) \<le> 15" by simp_all
  note P = retry_policy[where cfg = ?cfg and rt = ?rt]
  have f1: "fetch_weather_data (http_at flaky_world) DEFAULT_CITY
              = (Inr sample_data, replicate (15 - 1) 15)"
    using P[where http = "http_at flaky_world" and city_key = DEFAULT_CITY and k = 15
        and body = sample_data] fs1
    by blast
  have m1: "raised (main ?cfg ?rt flaky_world) = None \<and> exit_status (main ?cfg ?rt flaky_world) = 0 \<and>
      sent (main ?cfg ?rt flaky_world) = [sample_message] \<and>
      slept (main ?cfg ?rt flaky_world) = replicate (15 - 1) 15 @ replicate (3 - 1) 15"
    using P[where w = flaky_world and k = 15 and body = sample_data and a = sample_summary
        and m = 3 and msg = sample_message] fs1 an al fs2 le
    by blast
  have af: "all_fail (\<lambda>k. fetch_weather_data_try (http_at dead_world k) DEFAULT_CITY) 15"
    by code_simp
  have l15: "fetch_weather_data_try (http_at dead_world 15) DEFAULT_CITY = Inl RequestException"
    by code_simp
  have f2: "fetch_weather_data (http_at dead_world) DEFAULT_CITY
              = (Inl (RetryError RequestException), replicate 14 15)"
    using P[where http = "http_at dead_world" and city_key = DEFAULT_CITY
        and e = RequestException] af l15
    by blast
  have m2: "raised (main ?cfg ?rt dead_world) = Some (RetryError RequestException) \<and>
      exit_status (main ?cfg ?rt dead_world) = 1 \<and> sent (main ?cfg ?rt dead_world) = []"
    using P[where w = dead_world and e = RequestException] af l15
    by blast
  have fs3: "first_success (\<lambda>k. fetch_weather_data_try (http_at no_mail_world k) DEFAULT_CITY) 1
               sample_data"
    by code_simp
  have an3: "analyze_rain_probability ?cfg ?rt (index_clock no_mail_world)
               (check_clock no_mail_world) sample_data DEFAULT_CITY = Some sample_summary"
    by code_simp
  have as: "all_fail
     (\<lambda>k. send_rain_alert_email_try ?cfg ?rt (smtp_at no_mail_world k) sample_summary) 15"
    by code_simp
  have s15: "send_rain_alert_email_try ?cfg ?rt (smtp_at no_mail_world 15) sample_summary
               = Inl SMTPError"
    by code_simp
  have s3: "send_rain_alert_email ?cfg ?rt (smtp_at no_mail_world) sample_summary
              = (Inl (RetryError SMTPError), replicate 14 15)"
    using P[where smtp = "smtp_at no_mail_world" and a = sample_summary and e' = SMTPError] as s15
    by blast
  have le1: "(1::nat) \<le> 15" by simp
  have m3: "raised (main ?cfg ?rt no_mail_world) = Some (RetryError SMTPError) \<and>
      exit_status (main ?cfg ?rt no_mail_world) = 1 \<and> sent (main ?cfg ?rt no_mail_world) = []"
    using P[where w = no_mail_world and k = 1 and body = sample_data and a = sample_summary
        and e' = SMTPError] fs3 an3 al as s15 le1
    by blast
  have fs4: "first_success (\<lambda>k. fetch_weather_data_try (http_at quiet_world k) DEFAULT_CITY) 1
               sample_data"
    by code_simp
  have an4: "analyze_rain_probability ?cfg ?rt (index_clock quiet_world) (check_clock quiet_world)
               sample_data DEFAULT_CITY = Some quiet_summary"
    by code_simp
  have na: "\<not> alert_triggered quiet_summary" by code_simp
  have m4: "raised (main ?cfg ?rt quiet_world) = None \<and> exit_status (main ?cfg ?rt quiet_world) = 0 \<and>
      sent (main ?cfg ?rt quiet_world) = [] \<and>
      slept (main ?cfg ?rt quiet_world) = replicate (1 - 1) 15"
    using P[where w = quiet_world and k = 1 and body = sample_data and a = quiet_summary]
      fs4 an4 na le1
    by blast
  from fs1 f1 fs2 m1 af f2 m2 as s3 m3 na m4 show ?thesis by simp
qed

section \<open>The validation of the response\<close>






section \<open>The notification\<close>






end
